theory Spec2Isabelle
  imports Complex_Main "HOL-Library.AList"
begin

section \<open>Go strings and the standard-library string functions\<close>

text \<open>
  A Go string is a sequence of bytes; it is modelled as \<^typ>\<open>string\<close> (a list of
  8-bit characters).  Text outside ASCII appears as its UTF-8 bytes, written
  \<open>CHR 0x..\<close>, exactly as the Go compiler stores the literal.

  \<open>strings.HasSuffix(s, suffix)\<close> is
  \<^verbatim>\<open>len(s) >= len(suffix) && s[len(s)-len(suffix):] == suffix\<close>.
\<close>

definition HasSuffix :: "string \<Rightarrow> string \<Rightarrow> bool" where
  "HasSuffix s suffix \<longleftrightarrow>
     length s \<ge> length suffix \<and> drop (length s - length suffix) s = suffix"

text \<open>
  \<open>strings.TrimRight(s, cutset)\<close> removes every trailing character of \<open>s\<close> that is
  contained in \<open>cutset\<close>.  For a cutset of ASCII characters (the only use in this
  program is the cutset \<open>"/"\<close>) the function works byte by byte.
\<close>

definition TrimRight :: "string \<Rightarrow> string \<Rightarrow> string" where
  "TrimRight s cutset = rev (dropWhile (\<lambda>c. c \<in> set cutset) (rev s))"

text \<open>The verb \<open>%d\<close> of \<open>fmt\<close>: an integer in decimal, with a minus sign when negative.\<close>

fun digits :: "nat \<Rightarrow> string" where
  "digits n =
     (if n < 10 then [''0123456789'' ! n]
      else digits (n div 10) @ [''0123456789'' ! (n mod 10)])"

definition Itoa :: "int \<Rightarrow> string" where
  "Itoa i = (if i < 0 then CHR ''-'' # digits (nat (- i)) else digits (nat i))"

section \<open>Data model of the LLM client\<close>

text \<open>
  The structs of package \<open>llm\<close> are records.  Isabelle record fields are global names,
  so a field name that two structs share carries a prefix in all but one of them:
  \<open>req_Model\<close> is \<open>ChatRequest.Model\<close>, \<open>resp_ID\<close> is \<open>ChatResponse.ID\<close>.
  Go's \<open>int\<close> is modelled as \<^typ>\<open>int\<close> (no arithmetic is performed on any of these
  fields), and the \<open>float64\<close> temperature by the real number its literal denotes.
  A slice is a list; a \<open>nil\<close> slice and an empty slice are not distinguished.
\<close>

record ChatMessage =
  Role :: string
  Content :: string

record ChatRequest =
  req_Model :: string
  Messages :: "ChatMessage list"
  Temperature :: real
  MaxTokens :: int

record ChatChoice =
  Index :: int
  Message :: ChatMessage

record ChatResponse =
  resp_ID :: string
  Choices :: "ChatChoice list"

record LLMConfig =
  APIUrl :: string
  APIKey :: string
  Model :: string

record NodeInfo =
  ID :: int
  Name :: string
  Protocol :: string
  Country :: string
  Group :: string

subsection \<open>JSON documents and the struct tags\<close>

text \<open>
  \<open>json.Marshal\<close> works in two steps that the model keeps apart: the struct tags decide
  which JSON document a Go value denotes (the functions \<open>json_...\<close> below, one per
  struct), and the encoder writes that document as text (a function of the standard
  library, a parameter of the model: field \<open>Marshal\<close> of the world).

  The tags, from the source:
  \<^verbatim>\<open>
  ChatMessage:  Role `json:"role"`, Content `json:"content"`
  ChatRequest:  Model `json:"model"`, Messages `json:"messages"`,
                Temperature `json:"temperature,omitempty"`, MaxTokens `json:"max_tokens,omitempty"`
  NodeInfo:     ID `json:"id"`, Name `json:"name"`, Protocol `json:"protocol"`,
                Country `json:"country"`, Group `json:"group"`
  \<close>
  A field tagged \<open>omitempty\<close> is left out when it holds the zero value of its type.
\<close>

datatype json =
    JString string
  | JInt int
  | JNumber real
  | JArray "json list"
  | JObject "(string \<times> json) list"

definition json_ChatMessage :: "ChatMessage \<Rightarrow> json" where
  "json_ChatMessage m =
     JObject [(''role'', JString (Role m)), (''content'', JString (Content m))]"

definition json_ChatRequest :: "ChatRequest \<Rightarrow> json" where
  "json_ChatRequest r =
     JObject ([(''model'', JString (req_Model r)),
               (''messages'', JArray (map json_ChatMessage (Messages r)))]
              @ (if Temperature r = 0 then [] else [(''temperature'', JNumber (Temperature r))])
              @ (if MaxTokens r = 0 then [] else [(''max_tokens'', JInt (MaxTokens r))]))"

definition json_NodeInfo :: "NodeInfo \<Rightarrow> json" where
  "json_NodeInfo n =
     JObject [(''id'', JInt (ID n)), (''name'', JString (Name n)),
              (''protocol'', JString (Protocol n)), (''country'', JString (Country n)),
              (''group'', JString (Group n))]"

subsection \<open>HTTP requests and responses\<close>

text \<open>
  What \<open>net/http\<close> carries.  Field \<open>ReadAll_Body\<close> of a response is the result of
  \<open>io.ReadAll(resp.Body)\<close>: \<open>Inl\<close> the error text when reading the body fails, \<open>Inr\<close> the
  bytes of the body otherwise.
\<close>

record http_request =
  Method :: string
  URL :: string
  Header :: "(string \<times> string) list"
  Body :: string

record http_response =
  StatusCode :: int
  ReadAll_Body :: "string + string"

definition Header_Set :: "string \<Rightarrow> string \<Rightarrow> http_request \<Rightarrow> http_request" where
  "Header_Set key val req = req\<lparr>Header := AList.update key val (Header req)\<rparr>"

subsection \<open>The world: collaborators and observable effects\<close>

text \<open>
  Everything outside the two source files is a field of the world.  The function
  fields are the collaborators (an error of the standard library is represented by its
  text, \<open>Inl\<close> or \<open>Some\<close>):
  \<^item> \<open>GetSetting\<close>: \<open>models.GetSetting(key)\<close>, the string it returns (its error result is
    discarded by the caller);
  \<^item> \<open>GetProtocolFromLink\<close>: \<open>protocol.GetProtocolFromLink(link)\<close>;
  \<^item> \<open>Marshal\<close>: the text \<open>json.Marshal\<close> writes for a JSON document;
  \<^item> \<open>Unmarshal\<close>: \<open>json.Unmarshal(body, &chatResp)\<close> for a \<open>ChatResponse\<close>;
  \<^item> \<open>URL_error\<close>: the error of \<open>http.NewRequest\<close> for a URL it cannot parse;
  \<^item> \<open>Do\<close>: \<open>client.Do(req)\<close> for a client with the given timeout in seconds.  The
    client is the standard one and follows redirects: one call may be several HTTP
    round trips, and the response it returns is the last one.

  The list fields record the effects, in order: the keys read from the settings store,
  the requests handed to \<open>client.Do\<close> (one entry for each call), and the lines written with
  \<open>utils.Info\<close>.
\<close>

record world =
  GetSetting :: "string \<Rightarrow> string"
  GetProtocolFromLink :: "string \<Rightarrow> string"
  Marshal :: "json \<Rightarrow> string + string"
  Unmarshal :: "string \<Rightarrow> string + ChatResponse"
  URL_error :: "string \<Rightarrow> string option"
  Do :: "nat \<Rightarrow> http_request \<Rightarrow> string + http_response"
  setting_reads :: "string list"
  requests_sent :: "http_request list"
  info_log :: "string list"

text \<open>
  \<open>http.NewRequest(method, url, body)\<close>: the only method used is \<open>"POST"\<close>, which is
  valid, so the call fails exactly when the URL does not parse.
\<close>

definition NewRequest :: "world \<Rightarrow> string \<Rightarrow> string \<Rightarrow> string \<Rightarrow> string + http_request" where
  "NewRequest w method url body =
     (case URL_error w url of
        Some err \<Rightarrow> Inl err
      | None \<Rightarrow> Inr \<lparr>Method = method, URL = url, Header = [], Body = body\<rparr>)"

subsection \<open>Errors\<close>

text \<open>
  Every \<open>fmt.Errorf\<close> of the source is a constructor that carries the arguments of the
  format; \<open>Error\<close> is the message (\<open>err.Error()\<close>), built from the format string.
  In source order: the two errors of \<open>GetConfig\<close> (URL not configured, key not
  configured); the seven of \<open>callAPI\<close> (serialising the request, creating the request,
  the request itself, reading the response, a status other than 200, parsing the
  response, no choice in the response); serialising the nodes (\<open>OrganizeNodes\<close>,
  \<open>GenerateRules\<close>); the empty result of \<open>TestConnection\<close>.
\<close>

datatype error =
    URLNotConfigured
  | KeyNotConfigured
  | SerializeRequestFailed string
  | CreateRequestFailed string
  | RequestFailed string
  | ReadResponseFailed string
  | APIError int string
  | ParseResponseFailed string
  | NoValidResult
  | SerializeNodesFailed string
  | EmptyResult

fun Error :: "error \<Rightarrow> string" where
  "Error URLNotConfigured =
     (''LLM API URL ''
        @ [CHR 0xE6, CHR 0x9C, CHR 0xAA, CHR 0xE9, CHR 0x85, CHR 0x8D, CHR 0xE7, CHR 0xBD, CHR 0xAE])"
| "Error KeyNotConfigured =
     (''LLM API Key ''
        @ [CHR 0xE6, CHR 0x9C, CHR 0xAA, CHR 0xE9, CHR 0x85, CHR 0x8D, CHR 0xE7, CHR 0xBD, CHR 0xAE])"
| "Error (SerializeRequestFailed err) =
     ([CHR 0xE5, CHR 0xBA, CHR 0x8F, CHR 0xE5, CHR 0x88, CHR 0x97, CHR 0xE5, CHR 0x8C, CHR 0x96]
        @ [CHR 0xE8, CHR 0xAF, CHR 0xB7, CHR 0xE6, CHR 0xB1, CHR 0x82, CHR 0xE5, CHR 0xA4, CHR 0xB1]
        @ [CHR 0xE8, CHR 0xB4, CHR 0xA5] @ '': '') @ err"
| "Error (CreateRequestFailed err) =
     ([CHR 0xE5, CHR 0x88, CHR 0x9B, CHR 0xE5, CHR 0xBB, CHR 0xBA, CHR 0xE8, CHR 0xAF, CHR 0xB7]
        @ [CHR 0xE6, CHR 0xB1, CHR 0x82, CHR 0xE5, CHR 0xA4, CHR 0xB1, CHR 0xE8, CHR 0xB4, CHR 0xA5]
        @ '': '') @ err"
| "Error (RequestFailed err) =
     ([CHR 0xE8, CHR 0xAF, CHR 0xB7, CHR 0xE6, CHR 0xB1, CHR 0x82] @ ''LLM API''
        @ [CHR 0xE5, CHR 0xA4, CHR 0xB1, CHR 0xE8, CHR 0xB4, CHR 0xA5] @ '': '') @ err"
| "Error (ReadResponseFailed err) =
     ([CHR 0xE8, CHR 0xAF, CHR 0xBB, CHR 0xE5, CHR 0x8F, CHR 0x96, CHR 0xE5, CHR 0x93, CHR 0x8D]
        @ [CHR 0xE5, CHR 0xBA, CHR 0x94, CHR 0xE5, CHR 0xA4, CHR 0xB1, CHR 0xE8, CHR 0xB4, CHR 0xA5]
        @ '': '') @ err"
| "Error (APIError code body) =
     (''LLM API''
        @ [CHR 0xE8, CHR 0xBF, CHR 0x94, CHR 0xE5, CHR 0x9B, CHR 0x9E, CHR 0xE9, CHR 0x94, CHR 0x99]
        @ [CHR 0xE8, CHR 0xAF, CHR 0xAF] @ '' (HTTP '') @ Itoa code @ ''): '' @ body"
| "Error (ParseResponseFailed err) =
     ([CHR 0xE8, CHR 0xA7, CHR 0xA3, CHR 0xE6, CHR 0x9E, CHR 0x90, CHR 0xE5, CHR 0x93, CHR 0x8D]
        @ [CHR 0xE5, CHR 0xBA, CHR 0x94, CHR 0xE5, CHR 0xA4, CHR 0xB1, CHR 0xE8, CHR 0xB4, CHR 0xA5]
        @ '': '') @ err"
| "Error NoValidResult =
     (''LLM API''
        @ [CHR 0xE6, CHR 0x9C, CHR 0xAA, CHR 0xE8, CHR 0xBF, CHR 0x94, CHR 0xE5, CHR 0x9B, CHR 0x9E]
        @ [CHR 0xE6, CHR 0x9C, CHR 0x89, CHR 0xE6, CHR 0x95, CHR 0x88, CHR 0xE7, CHR 0xBB, CHR 0x93]
        @ [CHR 0xE6, CHR 0x9E, CHR 0x9C])"
| "Error (SerializeNodesFailed err) =
     ([CHR 0xE5, CHR 0xBA, CHR 0x8F, CHR 0xE5, CHR 0x88, CHR 0x97, CHR 0xE5, CHR 0x8C, CHR 0x96]
        @ [CHR 0xE8, CHR 0x8A, CHR 0x82, CHR 0xE7, CHR 0x82, CHR 0xB9, CHR 0xE4, CHR 0xBF, CHR 0xA1]
        @ [CHR 0xE6, CHR 0x81, CHR 0xAF, CHR 0xE5, CHR 0xA4, CHR 0xB1, CHR 0xE8, CHR 0xB4, CHR 0xA5]
        @ '': '') @ err"
| "Error EmptyResult =
     (''LLM API''
        @ [CHR 0xE8, CHR 0xBF, CHR 0x94, CHR 0xE5, CHR 0x9B, CHR 0x9E, CHR 0xE7, CHR 0xA9, CHR 0xBA]
        @ [CHR 0xE7, CHR 0xBB, CHR 0x93, CHR 0xE6, CHR 0x9E, CHR 0x9C])"

section \<open>The LLM client (package llm)\<close>

definition httpClientTimeout :: nat where
  "httpClientTimeout = 120"

text \<open>
  \<^verbatim>\<open>
  func GetConfig() (*LLMConfig, error) {
      apiUrl, _ := models.GetSetting("llm_api_url")
      apiKey, _ := models.GetSetting("llm_api_key")
      model, _ := models.GetSetting("llm_model")
      if apiUrl == "" { return nil, fmt.Errorf(...) }
      if apiKey == "" { return nil, fmt.Errorf(...) }
      if model == "" { model = "gpt-3.5-turbo" }
      return &LLMConfig{APIUrl: apiUrl, APIKey: apiKey, Model: model}, nil
  }
  \<close>
\<close>

definition GetConfig :: "world \<Rightarrow> (error + LLMConfig) \<times> world" where
  "GetConfig w =
     (let apiUrl = GetSetting w ''llm_api_url'';
          apiKey = GetSetting w ''llm_api_key'';
          model = GetSetting w ''llm_model'';
          w' = w\<lparr>setting_reads :=
                   setting_reads w @ [''llm_api_url'', ''llm_api_key'', ''llm_model'']\<rparr>
      in if apiUrl = '''' then (Inl URLNotConfigured, w')
         else if apiKey = '''' then (Inl KeyNotConfigured, w')
         else (Inr \<lparr>APIUrl = apiUrl, APIKey = apiKey,
                    Model = (if model = '''' then ''gpt-3.5-turbo'' else model)\<rparr>, w'))"

text \<open>
  \<^verbatim>\<open>
  func buildEndpointURL(apiUrl string) string {
      if strings.HasSuffix(apiUrl, "/chat/completions") { return apiUrl }
      if strings.HasSuffix(apiUrl, "/v1") { return apiUrl + "/chat/completions" }
      return strings.TrimRight(apiUrl, "/") + "/v1/chat/completions"
  }
  \<close>
\<close>

definition buildEndpointURL :: "string \<Rightarrow> string" where
  "buildEndpointURL apiUrl =
     (if HasSuffix apiUrl ''/chat/completions'' then apiUrl
      else if HasSuffix apiUrl ''/v1'' then apiUrl @ ''/chat/completions''
      else TrimRight apiUrl ''/'' @ ''/v1/chat/completions'')"

text \<open>
  \<open>callAPI\<close>, statement by statement.  The request is entered in \<open>requests_sent\<close> at
  \<open>client.Do(req)\<close>, whatever the outcome of the exchange.  The deferred
  \<open>resp.Body.Close()\<close> has no effect that the model observes.
  \<^verbatim>\<open>
  reqBody := ChatRequest{Model: config.Model, Messages: messages, Temperature: 0.7}
  jsonBody, err := json.Marshal(reqBody)
  if err != nil { return "", fmt.Errorf(...) }
  apiEndpoint := buildEndpointURL(config.APIUrl)
  req, err := http.NewRequest("POST", apiEndpoint, bytes.NewBuffer(jsonBody))
  if err != nil { return "", fmt.Errorf(...) }
  req.Header.Set("Content-Type", "application/json")
  req.Header.Set("Authorization", "Bearer "+config.APIKey)
  client := &http.Client{Timeout: httpClientTimeout}
  resp, err := client.Do(req)
  if err != nil { return "", fmt.Errorf(...) }
  defer resp.Body.Close()
  body, err := io.ReadAll(resp.Body)
  if err != nil { return "", fmt.Errorf(...) }
  if resp.StatusCode != http.StatusOK { return "", fmt.Errorf(..., resp.StatusCode, string(body)) }
  var chatResp ChatResponse
  if err := json.Unmarshal(body, &chatResp); err != nil { return "", fmt.Errorf(...) }
  if len(chatResp.Choices) == 0 { return "", fmt.Errorf(...) }
  return chatResp.Choices[0].Message.Content, nil
  \<close>
\<close>

definition callAPI :: "world \<Rightarrow> LLMConfig \<Rightarrow> ChatMessage list \<Rightarrow> (error + string) \<times> world" where
  "callAPI w config messages =
     (let reqBody = \<lparr>req_Model = Model config, Messages = messages,
                      Temperature = 7 / 10, MaxTokens = 0\<rparr>
      in case Marshal w (json_ChatRequest reqBody) of
           Inl err \<Rightarrow> (Inl (SerializeRequestFailed err), w)
         | Inr jsonBody \<Rightarrow>
             (let apiEndpoint = buildEndpointURL (APIUrl config)
              in case NewRequest w ''POST'' apiEndpoint jsonBody of
                   Inl err \<Rightarrow> (Inl (CreateRequestFailed err), w)
                 | Inr req0 \<Rightarrow>
                     (let req = Header_Set ''Authorization'' (''Bearer '' @ APIKey config)
                                  (Header_Set ''Content-Type'' ''application/json'' req0);
                          w' = w\<lparr>requests_sent := requests_sent w @ [req]\<rparr>
                      in case Do w httpClientTimeout req of
                           Inl err \<Rightarrow> (Inl (RequestFailed err), w')
                         | Inr resp \<Rightarrow>
                             (case ReadAll_Body resp of
                                Inl err \<Rightarrow> (Inl (ReadResponseFailed err), w')
                              | Inr body \<Rightarrow>
                                  if StatusCode resp \<noteq> 200
                                  then (Inl (APIError (StatusCode resp) body), w')
                                  else (case Unmarshal w body of
                                          Inl err \<Rightarrow> (Inl (ParseResponseFailed err), w')
                                        | Inr chatResp \<Rightarrow>
                                            if length (Choices chatResp) = 0
                                            then (Inl NoValidResult, w')
                                            else (Inr (Content (Message (Choices chatResp ! 0))),
                                                  w'))))))"

subsection \<open>Organising nodes\<close>

text \<open>
  The system prompt of \<open>OrganizeNodes\<close> (a raw string literal of 19 lines: the task of
  the assistant, the JSON shape of the reply with \<open>groups\<close> and \<open>suggestions\<close>, and three
  notes).
\<close>

definition OrganizeNodes_systemPrompt :: string where
  "OrganizeNodes_systemPrompt =
     ([CHR 0xE4, CHR 0xBD, CHR 0xA0, CHR 0xE6, CHR 0x98, CHR 0xAF, CHR 0xE4, CHR 0xB8, CHR 0x80]
        @ [CHR 0xE4, CHR 0xB8, CHR 0xAA, CHR 0xE4, CHR 0xBB, CHR 0xA3, CHR 0xE7, CHR 0x90, CHR 0x86]
        @ [CHR 0xE8, CHR 0x8A, CHR 0x82, CHR 0xE7, CHR 0x82, CHR 0xB9, CHR 0xE6, CHR 0x95, CHR 0xB4]
        @ [CHR 0xE7, CHR 0x90, CHR 0x86, CHR 0xE5, CHR 0x8A, CHR 0xA9, CHR 0xE6, CHR 0x89, CHR 0x8B]
        @ [CHR 0xE3, CHR 0x80, CHR 0x82, CHR 0xE4, CHR 0xBD, CHR 0xA0, CHR 0xE7, CHR 0x9A, CHR 0x84]
        @ [CHR 0xE4, CHR 0xBB, CHR 0xBB, CHR 0xE5, CHR 0x8A, CHR 0xA1, CHR 0xE6, CHR 0x98, CHR 0xAF]
        @ [CHR 0xE6, CHR 0xA0, CHR 0xB9, CHR 0xE6, CHR 0x8D, CHR 0xAE, CHR 0xE7, CHR 0x94, CHR 0xA8]
        @ [CHR 0xE6, CHR 0x88, CHR 0xB7, CHR 0xE7, CHR 0x9A, CHR 0x84, CHR 0xE6, CHR 0x8C, CHR 0x87]
        @ [CHR 0xE4, CHR 0xBB, CHR 0xA4, CHR 0xEF, CHR 0xBC, CHR 0x8C, CHR 0xE5, CHR 0xAF, CHR 0xB9]
        @ [CHR 0xE4, CHR 0xBB, CHR 0xA3, CHR 0xE7, CHR 0x90, CHR 0x86, CHR 0xE8, CHR 0x8A, CHR 0x82]
        @ [CHR 0xE7, CHR 0x82, CHR 0xB9, CHR 0xE8, CHR 0xBF, CHR 0x9B, CHR 0xE8, CHR 0xA1, CHR 0x8C]
        @ [CHR 0xE5, CHR 0x88, CHR 0x86, CHR 0xE7, CHR 0xB1, CHR 0xBB, CHR 0xE3, CHR 0x80, CHR 0x81]
        @ [CHR 0xE6, CHR 0x95, CHR 0xB4, CHR 0xE7, CHR 0x90, CHR 0x86, CHR 0xE5, CHR 0x92, CHR 0x8C]
        @ [CHR 0xE5, CHR 0xBB, CHR 0xBA, CHR 0xE8, CHR 0xAE, CHR 0xAE, CHR 0xE3, CHR 0x80, CHR 0x82]
        @ [CHR 0x0A, CHR 0xE8, CHR 0xAF, CHR 0xB7, CHR 0xE4, CHR 0xBB, CHR 0xA5] @ ''JSON''
        @ [CHR 0xE6, CHR 0xA0, CHR 0xBC, CHR 0xE5, CHR 0xBC, CHR 0x8F, CHR 0xE8, CHR 0xBF, CHR 0x94]
        @ [CHR 0xE5, CHR 0x9B, CHR 0x9E, CHR 0xE7, CHR 0xBB, CHR 0x93, CHR 0xE6, CHR 0x9E, CHR 0x9C]
        @ [CHR 0xE3, CHR 0x80, CHR 0x82, CHR 0x0A, CHR 0x0A, CHR 0xE8, CHR 0xBF, CHR 0x94, CHR 0xE5]
        @ [CHR 0x9B, CHR 0x9E, CHR 0xE6, CHR 0xA0, CHR 0xBC, CHR 0xE5, CHR 0xBC, CHR 0x8F, CHR 0xE8]
        @ [CHR 0xA6, CHR 0x81, CHR 0xE6, CHR 0xB1, CHR 0x82] @ '':'' @ [CHR 0x0A] @ ''{''
        @ [CHR 0x0A] @ ''  '' @ [CHR 0x22] @ ''groups'' @ [CHR 0x22] @ '': ['' @ [CHR 0x0A]
        @ ''    {'' @ [CHR 0x0A] @ ''      '' @ [CHR 0x22] @ ''name'' @ [CHR 0x22] @ '': ''
        @ [CHR 0x22, CHR 0xE5, CHR 0x88, CHR 0x86, CHR 0xE7, CHR 0xBB, CHR 0x84, CHR 0xE5, CHR 0x90]
        @ [CHR 0x8D, CHR 0xE7, CHR 0xA7, CHR 0xB0, CHR 0x22] @ '','' @ [CHR 0x0A]
        @ ''      '' @ [CHR 0x22] @ ''nodeIds'' @ [CHR 0x22] @ '': [1, 2, 3],'' @ [CHR 0x0A]
        @ ''      '' @ [CHR 0x22] @ ''description'' @ [CHR 0x22] @ '': ''
        @ [CHR 0x22, CHR 0xE5, CHR 0x88, CHR 0x86, CHR 0xE7, CHR 0xBB, CHR 0x84, CHR 0xE8, CHR 0xAF]
        @ [CHR 0xB4, CHR 0xE6, CHR 0x98, CHR 0x8E, CHR 0x22, CHR 0x0A] @ ''    }''
        @ [CHR 0x0A] @ ''  ],'' @ [CHR 0x0A] @ ''  '' @ [CHR 0x22] @ ''suggestions''
        @ [CHR 0x22] @ '': ''
        @ [CHR 0x22, CHR 0xE6, CHR 0x95, CHR 0xB4, CHR 0xE7, CHR 0x90, CHR 0x86, CHR 0xE5, CHR 0xBB]
        @ [CHR 0xBA, CHR 0xE8, CHR 0xAE, CHR 0xAE, CHR 0xE5, CHR 0x92, CHR 0x8C, CHR 0xE8, CHR 0xAF]
        @ [CHR 0xB4, CHR 0xE6, CHR 0x98, CHR 0x8E, CHR 0x22, CHR 0x0A] @ ''}''
        @ [CHR 0x0A, CHR 0x0A, CHR 0xE6, CHR 0xB3, CHR 0xA8, CHR 0xE6, CHR 0x84, CHR 0x8F, CHR 0xEF]
        @ [CHR 0xBC, CHR 0x9A, CHR 0x0A] @ ''- nodeIds''
        @ [CHR 0xE5, CHR 0xBF, CHR 0x85, CHR 0xE9, CHR 0xA1, CHR 0xBB, CHR 0xE4, CHR 0xBD, CHR 0xBF]
        @ [CHR 0xE7, CHR 0x94, CHR 0xA8, CHR 0xE5, CHR 0x8E, CHR 0x9F, CHR 0xE5, CHR 0xA7, CHR 0x8B]
        @ [CHR 0xE8, CHR 0x8A, CHR 0x82, CHR 0xE7, CHR 0x82, CHR 0xB9, CHR 0xE7, CHR 0x9A, CHR 0x84]
        @ ''id'' @ [CHR 0x0A] @ ''- ''
        @ [CHR 0xE5, CHR 0x8F, CHR 0xAA, CHR 0xE8, CHR 0xBF, CHR 0x94, CHR 0xE5, CHR 0x9B, CHR 0x9E]
        @ ''JSON''
        @ [CHR 0xEF, CHR 0xBC, CHR 0x8C, CHR 0xE4, CHR 0xB8, CHR 0x8D, CHR 0xE8, CHR 0xA6, CHR 0x81]
        @ [CHR 0xE5, CHR 0x8C, CHR 0x85, CHR 0xE5, CHR 0x90, CHR 0xAB, CHR 0xE5, CHR 0x85, CHR 0xB6]
        @ [CHR 0xE4, CHR 0xBB, CHR 0x96, CHR 0xE5, CHR 0x86, CHR 0x85, CHR 0xE5, CHR 0xAE, CHR 0xB9]
        @ [CHR 0x0A] @ ''- ''
        @ [CHR 0xE5, CHR 0x88, CHR 0x86, CHR 0xE7, CHR 0xBB, CHR 0x84, CHR 0xE5, CHR 0x90, CHR 0x8D]
        @ [CHR 0xE7, CHR 0xA7, CHR 0xB0, CHR 0xE5, CHR 0xBA, CHR 0x94, CHR 0xE8, CHR 0xAF, CHR 0xA5]
        @ [CHR 0xE7, CHR 0xAE, CHR 0x80, CHR 0xE6, CHR 0xB4, CHR 0x81, CHR 0xE6, CHR 0x98, CHR 0x8E]
        @ [CHR 0xE4, CHR 0xBA, CHR 0x86])"

text \<open>
  The user prompt: \<open>fmt.Sprintf\<close> of one of two formats, the first with the node JSON
  and the instruction, the second (taken when the instruction is empty) with the node
  JSON and a fixed request to group by region and protocol.
\<close>

definition OrganizeNodes_userPrompt :: "string \<Rightarrow> string \<Rightarrow> string" where
  "OrganizeNodes_userPrompt nodesJSON instruction =
     (if instruction = ''''
      then ([CHR 0xE4, CHR 0xBB, CHR 0xA5, CHR 0xE4, CHR 0xB8, CHR 0x8B, CHR 0xE6, CHR 0x98, CHR 0xAF]
         @ [CHR 0xE9, CHR 0x9C, CHR 0x80, CHR 0xE8, CHR 0xA6, CHR 0x81, CHR 0xE6, CHR 0x95, CHR 0xB4]
         @ [CHR 0xE7, CHR 0x90, CHR 0x86, CHR 0xE7, CHR 0x9A, CHR 0x84, CHR 0xE8, CHR 0x8A, CHR 0x82]
         @ [CHR 0xE7, CHR 0x82, CHR 0xB9, CHR 0xE5, CHR 0x88, CHR 0x97, CHR 0xE8, CHR 0xA1, CHR 0xA8]
         @ [CHR 0xEF, CHR 0xBC, CHR 0x9A, CHR 0x0A])
           @ nodesJSON
           @ ([CHR 0x0A, CHR 0x0A, CHR 0xE8, CHR 0xAF, CHR 0xB7, CHR 0xE6, CHR 0x8C, CHR 0x89, CHR 0xE7]
              @ [CHR 0x85, CHR 0xA7, CHR 0xE5, CHR 0x9C, CHR 0xB0, CHR 0xE5, CHR 0x8C, CHR 0xBA, CHR 0xE5]
              @ [CHR 0x92, CHR 0x8C, CHR 0xE5, CHR 0x8D, CHR 0x8F, CHR 0xE8, CHR 0xAE, CHR 0xAE, CHR 0xE5]
              @ [CHR 0xAF, CHR 0xB9, CHR 0xE8, CHR 0x8A, CHR 0x82, CHR 0xE7, CHR 0x82, CHR 0xB9, CHR 0xE8]
              @ [CHR 0xBF, CHR 0x9B, CHR 0xE8, CHR 0xA1, CHR 0x8C, CHR 0xE5, CHR 0x88, CHR 0x86, CHR 0xE7]
              @ [CHR 0xBB, CHR 0x84, CHR 0xE6, CHR 0x95, CHR 0xB4, CHR 0xE7, CHR 0x90, CHR 0x86, CHR 0xE3]
              @ [CHR 0x80, CHR 0x82])
      else ([CHR 0xE4, CHR 0xBB, CHR 0xA5, CHR 0xE4, CHR 0xB8, CHR 0x8B, CHR 0xE6, CHR 0x98, CHR 0xAF]
         @ [CHR 0xE9, CHR 0x9C, CHR 0x80, CHR 0xE8, CHR 0xA6, CHR 0x81, CHR 0xE6, CHR 0x95, CHR 0xB4]
         @ [CHR 0xE7, CHR 0x90, CHR 0x86, CHR 0xE7, CHR 0x9A, CHR 0x84, CHR 0xE8, CHR 0x8A, CHR 0x82]
         @ [CHR 0xE7, CHR 0x82, CHR 0xB9, CHR 0xE5, CHR 0x88, CHR 0x97, CHR 0xE8, CHR 0xA1, CHR 0xA8]
         @ [CHR 0xEF, CHR 0xBC, CHR 0x9A, CHR 0x0A])
           @ nodesJSON
           @ ([CHR 0x0A, CHR 0x0A, CHR 0xE7, CHR 0x94, CHR 0xA8, CHR 0xE6, CHR 0x88, CHR 0xB7, CHR 0xE6]
              @ [CHR 0x8C, CHR 0x87, CHR 0xE4, CHR 0xBB, CHR 0xA4, CHR 0xEF, CHR 0xBC, CHR 0x9A])
           @ instruction)"

text \<open>
  \<^verbatim>\<open>
  func OrganizeNodes(nodes []NodeInfo, instruction string) (string, error) {
      config, err := GetConfig()
      if err != nil { return "", err }
      nodesJSON, err := json.Marshal(nodes)
      if err != nil { return "", fmt.Errorf(...) }
      systemPrompt := ...
      userPrompt := fmt.Sprintf(..., string(nodesJSON), instruction)
      if instruction == "" { userPrompt = fmt.Sprintf(..., string(nodesJSON)) }
      messages := []ChatMessage{{Role: "system", Content: systemPrompt},
                                {Role: "user", Content: userPrompt}}
      result, err := callAPI(config, messages)
      if err != nil { return "", err }
      utils.Info(...)
      return result, nil
  }
  \<close>
\<close>

definition OrganizeNodes :: "world \<Rightarrow> NodeInfo list \<Rightarrow> string \<Rightarrow> (error + string) \<times> world" where
  "OrganizeNodes w nodes instruction =
     (case GetConfig w of
        (Inl err, w1) \<Rightarrow> (Inl err, w1)
      | (Inr config, w1) \<Rightarrow>
          (case Marshal w1 (JArray (map json_NodeInfo nodes)) of
             Inl err \<Rightarrow> (Inl (SerializeNodesFailed err), w1)
           | Inr nodesJSON \<Rightarrow>
               (let messages =
                      [\<lparr>Role = ''system'', Content = OrganizeNodes_systemPrompt\<rparr>,
                       \<lparr>Role = ''user'', Content = OrganizeNodes_userPrompt nodesJSON instruction\<rparr>]
                in case callAPI w1 config messages of
                     (Inl err, w2) \<Rightarrow> (Inl err, w2)
                   | (Inr result, w2) \<Rightarrow>
                       (Inr result,
                        w2\<lparr>info_log := info_log w2 @
                             [(''LLM''
                                @ [CHR 0xE8, CHR 0x8A, CHR 0x82, CHR 0xE7, CHR 0x82, CHR 0xB9, CHR 0xE6, CHR 0x95, CHR 0xB4]
                                @ [CHR 0xE7, CHR 0x90, CHR 0x86, CHR 0xE5, CHR 0xAE, CHR 0x8C, CHR 0xE6, CHR 0x88, CHR 0x90])]\<rparr>))))"

subsection \<open>Generating rules\<close>

text \<open>
  The \<open>switch clientType\<close> of \<open>GenerateRules\<close>: the format description for \<open>"clash"\<close>
  (five lines, a \<open>rules:\<close> example), for \<open>"surge"\<close> (five lines, a \<open>[Rule]\<close>
  example), and the default (one line, a generic rule format).
\<close>

definition formatDesc_clash :: string where
  "formatDesc_clash =
     (''Clash/Mihomo YAML''
        @ [CHR 0xE6, CHR 0xA0, CHR 0xBC, CHR 0xE5, CHR 0xBC, CHR 0x8F, CHR 0xE7, CHR 0x9A, CHR 0x84]
        @ ''rules''
        @ [CHR 0xE9, CHR 0x83, CHR 0xA8, CHR 0xE5, CHR 0x88, CHR 0x86, CHR 0xE3, CHR 0x80, CHR 0x82]
        @ [CHR 0xE7, CHR 0xA4, CHR 0xBA, CHR 0xE4, CHR 0xBE, CHR 0x8B, CHR 0xE6, CHR 0xA0, CHR 0xBC]
        @ [CHR 0xE5, CHR 0xBC, CHR 0x8F] @ '':'' @ [CHR 0x0A] @ ''rules:'' @ [CHR 0x0A]
        @ ''  - DOMAIN-SUFFIX,google.com,''
        @ [CHR 0xE8, CHR 0x8A, CHR 0x82, CHR 0xE7, CHR 0x82, CHR 0xB9, CHR 0xE5, CHR 0x88, CHR 0x86]
        @ [CHR 0xE7, CHR 0xBB, CHR 0x84, CHR 0xE5, CHR 0x90, CHR 0x8D, CHR 0x0A]
        @ ''  - GEOIP,CN,DIRECT'' @ [CHR 0x0A] @ ''  - MATCH,''
        @ [CHR 0xE8, CHR 0x8A, CHR 0x82, CHR 0xE7, CHR 0x82, CHR 0xB9, CHR 0xE5, CHR 0x88, CHR 0x86]
        @ [CHR 0xE7, CHR 0xBB, CHR 0x84, CHR 0xE5, CHR 0x90, CHR 0x8D])"

definition formatDesc_surge :: string where
  "formatDesc_surge =
     (''Surge''
        @ [CHR 0xE8, CHR 0xA7, CHR 0x84, CHR 0xE5, CHR 0x88, CHR 0x99, CHR 0xE6, CHR 0xA0, CHR 0xBC]
        @ [CHR 0xE5, CHR 0xBC, CHR 0x8F, CHR 0xE3, CHR 0x80, CHR 0x82, CHR 0xE7, CHR 0xA4, CHR 0xBA]
        @ [CHR 0xE4, CHR 0xBE, CHR 0x8B, CHR 0xE6, CHR 0xA0, CHR 0xBC, CHR 0xE5, CHR 0xBC, CHR 0x8F]
        @ '':'' @ [CHR 0x0A] @ ''[Rule]'' @ [CHR 0x0A] @ ''DOMAIN-SUFFIX,google.com,''
        @ [CHR 0xE8, CHR 0x8A, CHR 0x82, CHR 0xE7, CHR 0x82, CHR 0xB9, CHR 0xE5, CHR 0x88, CHR 0x86]
        @ [CHR 0xE7, CHR 0xBB, CHR 0x84, CHR 0xE5, CHR 0x90, CHR 0x8D, CHR 0x0A]
        @ ''GEOIP,CN,DIRECT'' @ [CHR 0x0A] @ ''FINAL,''
        @ [CHR 0xE8, CHR 0x8A, CHR 0x82, CHR 0xE7, CHR 0x82, CHR 0xB9, CHR 0xE5, CHR 0x88, CHR 0x86]
        @ [CHR 0xE7, CHR 0xBB, CHR 0x84, CHR 0xE5, CHR 0x90, CHR 0x8D])"

definition formatDesc_default :: string where
  "formatDesc_default =
     ([CHR 0xE9, CHR 0x80, CHR 0x9A, CHR 0xE7, CHR 0x94, CHR 0xA8, CHR 0xE4, CHR 0xBB, CHR 0xA3]
        @ [CHR 0xE7, CHR 0x90, CHR 0x86, CHR 0xE8, CHR 0xA7, CHR 0x84, CHR 0xE5, CHR 0x88, CHR 0x99]
        @ [CHR 0xE6, CHR 0xA0, CHR 0xBC, CHR 0xE5, CHR 0xBC, CHR 0x8F])"

definition GenerateRules_formatDesc :: "string \<Rightarrow> string" where
  "GenerateRules_formatDesc clientType =
     (if clientType = ''clash'' then formatDesc_clash
      else if clientType = ''surge'' then formatDesc_surge
      else formatDesc_default)"

text \<open>
  The system prompt: \<open>fmt.Sprintf(format, clientType, formatDesc)\<close>; the format has
  two \<open>%s\<close>, which cut it into three pieces.
\<close>

definition GenerateRules_systemPrompt :: "string \<Rightarrow> string \<Rightarrow> string" where
  "GenerateRules_systemPrompt clientType formatDesc =
     ([CHR 0xE4, CHR 0xBD, CHR 0xA0, CHR 0xE6, CHR 0x98, CHR 0xAF, CHR 0xE4, CHR 0xB8, CHR 0x80]
        @ [CHR 0xE4, CHR 0xB8, CHR 0xAA, CHR 0xE4, CHR 0xBB, CHR 0xA3, CHR 0xE7, CHR 0x90, CHR 0x86]
        @ [CHR 0xE8, CHR 0xAE, CHR 0xA2, CHR 0xE9, CHR 0x98, CHR 0x85, CHR 0xE8, CHR 0xA7, CHR 0x84]
        @ [CHR 0xE5, CHR 0x88, CHR 0x99, CHR 0xE7, CHR 0x94, CHR 0x9F, CHR 0xE6, CHR 0x88, CHR 0x90]
        @ [CHR 0xE5, CHR 0x8A, CHR 0xA9, CHR 0xE6, CHR 0x89, CHR 0x8B, CHR 0xE3, CHR 0x80, CHR 0x82]
        @ [CHR 0xE6, CHR 0xA0, CHR 0xB9, CHR 0xE6, CHR 0x8D, CHR 0xAE, CHR 0xE7, CHR 0x94, CHR 0xA8]
        @ [CHR 0xE6, CHR 0x88, CHR 0xB7, CHR 0xE6, CHR 0x8F, CHR 0x90, CHR 0xE4, CHR 0xBE, CHR 0x9B]
        @ [CHR 0xE7, CHR 0x9A, CHR 0x84, CHR 0xE8, CHR 0x8A, CHR 0x82, CHR 0xE7, CHR 0x82, CHR 0xB9]
        @ [CHR 0xE4, CHR 0xBF, CHR 0xA1, CHR 0xE6, CHR 0x81, CHR 0xAF, CHR 0xE5, CHR 0x92, CHR 0x8C]
        @ [CHR 0xE9, CHR 0x9C, CHR 0x80, CHR 0xE6, CHR 0xB1, CHR 0x82, CHR 0xEF, CHR 0xBC, CHR 0x8C]
        @ [CHR 0xE7, CHR 0x94, CHR 0x9F, CHR 0xE6, CHR 0x88, CHR 0x90, CHR 0xE5, CHR 0x90, CHR 0x88]
        @ [CHR 0xE9, CHR 0x80, CHR 0x82, CHR 0xE7, CHR 0x9A, CHR 0x84])
     @ clientType
     @ ([CHR 0xE8, CHR 0xAE, CHR 0xA2, CHR 0xE9, CHR 0x98, CHR 0x85, CHR 0xE8, CHR 0xA7, CHR 0x84]
        @ [CHR 0xE5, CHR 0x88, CHR 0x99, CHR 0xE3, CHR 0x80, CHR 0x82, CHR 0x0A, CHR 0x0A, CHR 0xE8]
        @ [CHR 0xA7, CHR 0x84, CHR 0xE5, CHR 0x88, CHR 0x99, CHR 0xE6, CHR 0xA0, CHR 0xBC, CHR 0xE5]
        @ [CHR 0xBC, CHR 0x8F, CHR 0xE8, CHR 0xA6, CHR 0x81, CHR 0xE6, CHR 0xB1, CHR 0x82, CHR 0xEF]
        @ [CHR 0xBC, CHR 0x9A])
     @ formatDesc
     @ ([CHR 0x0A, CHR 0x0A, CHR 0xE8, CHR 0xAF, CHR 0xB7, CHR 0xE4, CHR 0xBB, CHR 0xA5] @ ''JSON''
        @ [CHR 0xE6, CHR 0xA0, CHR 0xBC, CHR 0xE5, CHR 0xBC, CHR 0x8F, CHR 0xE8, CHR 0xBF, CHR 0x94]
        @ [CHR 0xE5, CHR 0x9B, CHR 0x9E, CHR 0xE7, CHR 0xBB, CHR 0x93, CHR 0xE6, CHR 0x9E, CHR 0x9C]
        @ [CHR 0xEF, CHR 0xBC, CHR 0x9A, CHR 0x0A] @ ''{'' @ [CHR 0x0A] @ ''  ''
        @ [CHR 0x22] @ ''rules'' @ [CHR 0x22] @ '': ''
        @ [CHR 0x22, CHR 0xE7, CHR 0x94, CHR 0x9F, CHR 0xE6, CHR 0x88, CHR 0x90, CHR 0xE7, CHR 0x9A]
        @ [CHR 0x84, CHR 0xE8, CHR 0xA7, CHR 0x84, CHR 0xE5, CHR 0x88, CHR 0x99, CHR 0xE5, CHR 0x86]
        @ [CHR 0x85, CHR 0xE5, CHR 0xAE, CHR 0xB9, CHR 0xEF, CHR 0xBC, CHR 0x88, CHR 0xE5, CHR 0xAD]
        @ [CHR 0x97, CHR 0xE7, CHR 0xAC, CHR 0xA6, CHR 0xE4, CHR 0xB8, CHR 0xB2, CHR 0xE5, CHR 0xBD]
        @ [CHR 0xA2, CHR 0xE5, CHR 0xBC, CHR 0x8F, CHR 0xEF, CHR 0xBC, CHR 0x89, CHR 0x22]
        @ '','' @ [CHR 0x0A] @ ''  '' @ [CHR 0x22] @ ''proxyGroups'' @ [CHR 0x22] @ '': [''
        @ [CHR 0x0A] @ ''    {'' @ [CHR 0x0A] @ ''      '' @ [CHR 0x22] @ ''name''
        @ [CHR 0x22] @ '': ''
        @ [CHR 0x22, CHR 0xE5, CHR 0x88, CHR 0x86, CHR 0xE7, CHR 0xBB, CHR 0x84, CHR 0xE5, CHR 0x90]
        @ [CHR 0x8D, CHR 0xE7, CHR 0xA7, CHR 0xB0, CHR 0x22] @ '','' @ [CHR 0x0A]
        @ ''      '' @ [CHR 0x22] @ ''type'' @ [CHR 0x22] @ '': '' @ [CHR 0x22]
        @ ''select/url-test/fallback'' @ [CHR 0x22] @ '','' @ [CHR 0x0A] @ ''      ''
        @ [CHR 0x22] @ ''nodeIds'' @ [CHR 0x22] @ '': [1, 2, 3]'' @ [CHR 0x0A] @ ''    }''
        @ [CHR 0x0A] @ ''  ],'' @ [CHR 0x0A] @ ''  '' @ [CHR 0x22] @ ''description''
        @ [CHR 0x22] @ '': ''
        @ [CHR 0x22, CHR 0xE8, CHR 0xA7, CHR 0x84, CHR 0xE5, CHR 0x88, CHR 0x99, CHR 0xE8, CHR 0xAF]
        @ [CHR 0xB4, CHR 0xE6, CHR 0x98, CHR 0x8E, CHR 0x22, CHR 0x0A] @ ''}''
        @ [CHR 0x0A, CHR 0x0A, CHR 0xE6, CHR 0xB3, CHR 0xA8, CHR 0xE6, CHR 0x84, CHR 0x8F, CHR 0xEF]
        @ [CHR 0xBC, CHR 0x9A, CHR 0x0A] @ ''- ''
        @ [CHR 0xE5, CHR 0x8F, CHR 0xAA, CHR 0xE8, CHR 0xBF, CHR 0x94, CHR 0xE5, CHR 0x9B, CHR 0x9E]
        @ ''JSON''
        @ [CHR 0xEF, CHR 0xBC, CHR 0x8C, CHR 0xE4, CHR 0xB8, CHR 0x8D, CHR 0xE8, CHR 0xA6, CHR 0x81]
        @ [CHR 0xE5, CHR 0x8C, CHR 0x85, CHR 0xE5, CHR 0x90, CHR 0xAB, CHR 0xE5, CHR 0x85, CHR 0xB6]
        @ [CHR 0xE4, CHR 0xBB, CHR 0x96, CHR 0xE5, CHR 0x86, CHR 0x85, CHR 0xE5, CHR 0xAE, CHR 0xB9]
        @ [CHR 0x0A] @ ''- ''
        @ [CHR 0xE8, CHR 0xA7, CHR 0x84, CHR 0xE5, CHR 0x88, CHR 0x99, CHR 0xE5, CHR 0xBA, CHR 0x94]
        @ [CHR 0xE8, CHR 0xAF, CHR 0xA5, CHR 0xE5, CHR 0x8C, CHR 0x85, CHR 0xE5, CHR 0x90, CHR 0xAB]
        @ [CHR 0xE5, CHR 0xB8, CHR 0xB8, CHR 0xE7, CHR 0x94, CHR 0xA8, CHR 0xE7, CHR 0x9A, CHR 0x84]
        @ [CHR 0xE5, CHR 0x88, CHR 0x86, CHR 0xE6, CHR 0xB5, CHR 0x81, CHR 0xE8, CHR 0xA7, CHR 0x84]
        @ [CHR 0xE5, CHR 0x88, CHR 0x99, CHR 0xEF, CHR 0xBC, CHR 0x88, CHR 0xE5, CHR 0xA6, CHR 0x82]
        @ [CHR 0xE5, CHR 0x9B, CHR 0xBD, CHR 0xE5, CHR 0x86, CHR 0x85, CHR 0xE7, CHR 0x9B, CHR 0xB4]
        @ [CHR 0xE8, CHR 0xBF, CHR 0x9E, CHR 0xE3, CHR 0x80, CHR 0x81, CHR 0xE5, CHR 0x9B, CHR 0xBD]
        @ [CHR 0xE5, CHR 0xA4, CHR 0x96, CHR 0xE4, CHR 0xBB, CHR 0xA3, CHR 0xE7, CHR 0x90, CHR 0x86]
        @ [CHR 0xE7, CHR 0xAD, CHR 0x89, CHR 0xEF, CHR 0xBC, CHR 0x89, CHR 0x0A] @ ''- ''
        @ [CHR 0xE4, CHR 0xBB, CHR 0xA3, CHR 0xE7, CHR 0x90, CHR 0x86, CHR 0xE7, CHR 0xBB, CHR 0x84]
        @ [CHR 0xE5, CHR 0x90, CHR 0x8D, CHR 0xE7, CHR 0xA7, CHR 0xB0, CHR 0xE5, CHR 0xBA, CHR 0x94]
        @ [CHR 0xE8, CHR 0xAF, CHR 0xA5, CHR 0xE7, CHR 0xAE, CHR 0x80, CHR 0xE6, CHR 0xB4, CHR 0x81]
        @ [CHR 0xE6, CHR 0x98, CHR 0x8E, CHR 0xE4, CHR 0xBA, CHR 0x86, CHR 0x0A]
        @ ''- nodeIds''
        @ [CHR 0xE5, CHR 0xBF, CHR 0x85, CHR 0xE9, CHR 0xA1, CHR 0xBB, CHR 0xE4, CHR 0xBD, CHR 0xBF]
        @ [CHR 0xE7, CHR 0x94, CHR 0xA8, CHR 0xE5, CHR 0x8E, CHR 0x9F, CHR 0xE5, CHR 0xA7, CHR 0x8B]
        @ [CHR 0xE8, CHR 0x8A, CHR 0x82, CHR 0xE7, CHR 0x82, CHR 0xB9, CHR 0xE7, CHR 0x9A, CHR 0x84]
        @ ''id'')"

text \<open>
  The user prompt: the node JSON in a fixed frame, followed by the instruction behind
  a label, or by a fixed request when the instruction is empty.
\<close>

definition GenerateRules_userPrompt :: "string \<Rightarrow> string \<Rightarrow> string" where
  "GenerateRules_userPrompt nodesJSON instruction =
     ([CHR 0xE4, CHR 0xBB, CHR 0xA5, CHR 0xE4, CHR 0xB8, CHR 0x8B, CHR 0xE6, CHR 0x98, CHR 0xAF]
        @ [CHR 0xE5, CHR 0x8F, CHR 0xAF, CHR 0xE7, CHR 0x94, CHR 0xA8, CHR 0xE7, CHR 0x9A, CHR 0x84]
        @ [CHR 0xE8, CHR 0x8A, CHR 0x82, CHR 0xE7, CHR 0x82, CHR 0xB9, CHR 0xE5, CHR 0x88, CHR 0x97]
        @ [CHR 0xE8, CHR 0xA1, CHR 0xA8, CHR 0xEF, CHR 0xBC, CHR 0x9A, CHR 0x0A])
     @ nodesJSON
     @ [CHR 0x0A, CHR 0x0A]
     @ (if instruction \<noteq> ''''
        then ([CHR 0xE7, CHR 0x94, CHR 0xA8, CHR 0xE6, CHR 0x88, CHR 0xB7, CHR 0xE9, CHR 0x9C, CHR 0x80]
           @ [CHR 0xE6, CHR 0xB1, CHR 0x82, CHR 0xEF, CHR 0xBC, CHR 0x9A]) @ instruction
        else ([CHR 0xE8, CHR 0xAF, CHR 0xB7, CHR 0xE6, CHR 0xA0, CHR 0xB9, CHR 0xE6, CHR 0x8D, CHR 0xAE]
           @ [CHR 0xE8, CHR 0x8A, CHR 0x82, CHR 0xE7, CHR 0x82, CHR 0xB9, CHR 0xE7, CHR 0x9A, CHR 0x84]
           @ [CHR 0xE5, CHR 0x9C, CHR 0xB0, CHR 0xE5, CHR 0x8C, CHR 0xBA, CHR 0xE5, CHR 0x92, CHR 0x8C]
           @ [CHR 0xE7, CHR 0xB1, CHR 0xBB, CHR 0xE5, CHR 0x9E, CHR 0x8B, CHR 0xEF, CHR 0xBC, CHR 0x8C]
           @ [CHR 0xE7, CHR 0x94, CHR 0x9F, CHR 0xE6, CHR 0x88, CHR 0x90, CHR 0xE5, CHR 0x90, CHR 0x88]
           @ [CHR 0xE9, CHR 0x80, CHR 0x82, CHR 0xE7, CHR 0x9A, CHR 0x84, CHR 0xE4, CHR 0xBB, CHR 0xA3]
           @ [CHR 0xE7, CHR 0x90, CHR 0x86, CHR 0xE5, CHR 0x88, CHR 0x86, CHR 0xE6, CHR 0xB5, CHR 0x81]
           @ [CHR 0xE8, CHR 0xA7, CHR 0x84, CHR 0xE5, CHR 0x88, CHR 0x99, CHR 0xE3, CHR 0x80, CHR 0x82]
           @ [CHR 0xE5, CHR 0x8C, CHR 0x85, CHR 0xE5, CHR 0x90, CHR 0xAB, CHR 0xE5, CHR 0x9B, CHR 0xBD]
           @ [CHR 0xE5, CHR 0x86, CHR 0x85, CHR 0xE7, CHR 0x9B, CHR 0xB4, CHR 0xE8, CHR 0xBF, CHR 0x9E]
           @ [CHR 0xE3, CHR 0x80, CHR 0x81, CHR 0xE5, CHR 0x9B, CHR 0xBD, CHR 0xE5, CHR 0xA4, CHR 0x96]
           @ [CHR 0xE4, CHR 0xBB, CHR 0xA3, CHR 0xE7, CHR 0x90, CHR 0x86, CHR 0xE3, CHR 0x80, CHR 0x81]
           @ [CHR 0xE6, CHR 0xB5, CHR 0x81, CHR 0xE5, CHR 0xAA, CHR 0x92, CHR 0xE4, CHR 0xBD, CHR 0x93]
           @ [CHR 0xE5, CHR 0x88, CHR 0x86, CHR 0xE6, CHR 0xB5, CHR 0x81, CHR 0xE7, CHR 0xAD, CHR 0x89]
           @ [CHR 0xE5, CHR 0xB8, CHR 0xB8, CHR 0xE7, CHR 0x94, CHR 0xA8, CHR 0xE8, CHR 0xA7, CHR 0x84]
           @ [CHR 0xE5, CHR 0x88, CHR 0x99, CHR 0xE3, CHR 0x80, CHR 0x82]))"

text \<open>
  \<^verbatim>\<open>
  func GenerateRules(nodes []NodeInfo, clientType string, instruction string) (string, error) {
      config, err := GetConfig()
      if err != nil { return "", err }
      nodesJSON, err := json.Marshal(nodes)
      if err != nil { return "", fmt.Errorf(...) }
      var formatDesc string
      switch clientType { case "clash": ...  case "surge": ...  default: ... }
      systemPrompt := fmt.Sprintf(..., clientType, formatDesc)
      userPrompt := fmt.Sprintf(..., string(nodesJSON))
      if instruction != "" { userPrompt += fmt.Sprintf(..., instruction) } else { userPrompt += ... }
      messages := []ChatMessage{{Role: "system", Content: systemPrompt},
                                {Role: "user", Content: userPrompt}}
      result, err := callAPI(config, messages)
      if err != nil { return "", err }
      utils.Info(...)
      return result, nil
  }
  \<close>
\<close>

definition GenerateRules ::
    "world \<Rightarrow> NodeInfo list \<Rightarrow> string \<Rightarrow> string \<Rightarrow> (error + string) \<times> world" where
  "GenerateRules w nodes clientType instruction =
     (case GetConfig w of
        (Inl err, w1) \<Rightarrow> (Inl err, w1)
      | (Inr config, w1) \<Rightarrow>
          (case Marshal w1 (JArray (map json_NodeInfo nodes)) of
             Inl err \<Rightarrow> (Inl (SerializeNodesFailed err), w1)
           | Inr nodesJSON \<Rightarrow>
               (let formatDesc = GenerateRules_formatDesc clientType;
                    messages =
                      [\<lparr>Role = ''system'',
                        Content = GenerateRules_systemPrompt clientType formatDesc\<rparr>,
                       \<lparr>Role = ''user'', Content = GenerateRules_userPrompt nodesJSON instruction\<rparr>]
                in case callAPI w1 config messages of
                     (Inl err, w2) \<Rightarrow> (Inl err, w2)
                   | (Inr result, w2) \<Rightarrow>
                       (Inr result,
                        w2\<lparr>info_log := info_log w2 @
                             [(''LLM''
                                @ [CHR 0xE8, CHR 0xA7, CHR 0x84, CHR 0xE5, CHR 0x88, CHR 0x99, CHR 0xE7, CHR 0x94, CHR 0x9F]
                                @ [CHR 0xE6, CHR 0x88, CHR 0x90, CHR 0xE5, CHR 0xAE, CHR 0x8C, CHR 0xE6, CHR 0x88, CHR 0x90])]\<rparr>))))"

subsection \<open>Testing the connection\<close>

text \<open>
  \<^verbatim>\<open>
  func TestConnection(config *LLMConfig) error {
      messages := []ChatMessage{{Role: "user", Content: ...}}
      result, err := callAPI(config, messages)
      if err != nil { return err }
      if result == "" { return fmt.Errorf(...) }
      return nil
  }
  \<close>
  The result \<open>None\<close> is Go's \<open>nil\<close> error.  The content of the message asks for the
  reply \<open>ok\<close>.
\<close>

definition TestConnection_message :: ChatMessage where
  "TestConnection_message =
     \<lparr>Role = ''user'',
      Content = ([CHR 0xE8, CHR 0xAF, CHR 0xB7, CHR 0xE5, CHR 0x9B, CHR 0x9E, CHR 0xE5, CHR 0xA4, CHR 0x8D]
         @ '' ok'')\<rparr>"

definition TestConnection :: "world \<Rightarrow> LLMConfig \<Rightarrow> error option \<times> world" where
  "TestConnection w config =
     (case callAPI w config [TestConnection_message] of
        (Inl err, w') \<Rightarrow> (Some err, w')
      | (Inr result, w') \<Rightarrow> if result = '''' then (Some EmptyResult, w') else (None, w'))"

section \<open>The request handlers (package api)\<close>

text \<open>
  A handler receives the outcome of \<open>c.ShouldBindJSON(&req)\<close>: \<open>None\<close> when binding
  fails, the bound request otherwise.  It answers with one call of \<open>utils.FailWithMsg\<close>,
  \<open>utils.OkDetailed\<close> or \<open>utils.OkWithMsg\<close>; the response records which one, with its
  arguments (the \<open>gin.H\<close> map as a list of pairs).

  The element type of \<open>req.Nodes\<close> is the same anonymous struct in both handlers
  (\<open>ID\<close>, \<open>Name\<close>, \<open>Link\<close>, \<open>Country\<close>, \<open>Group\<close>); its fields carry the prefix \<open>in_\<close>.
  The fields of the second request carry the prefix \<open>gen_\<close> where the first has the same
  name.
\<close>

record InNode =
  in_ID :: int
  in_Name :: string
  in_Link :: string
  in_Country :: string
  in_Group :: string

record OrganizeReq =
  Nodes :: "InNode list"
  Instruction :: string

record GenerateReq =
  gen_Nodes :: "InNode list"
  ClientType :: string
  gen_Instruction :: string

record TestReq =
  test_APIUrl :: string
  test_APIKey :: string
  test_Model :: string

datatype response =
    FailWithMsg string
  | OkDetailed string "(string \<times> string) list"
  | OkWithMsg string

text \<open>
  The conversion loop shared by both handlers:
  \<^verbatim>\<open>
  nodes := make([]llm.NodeInfo, 0, len(req.Nodes))
  for _, n := range req.Nodes {
      nodes = append(nodes, llm.NodeInfo{ID: n.ID, Name: n.Name,
          Protocol: protocol.GetProtocolFromLink(n.Link), Country: n.Country, Group: n.Group})
  }
  \<close>
\<close>

definition toNodeInfo :: "world \<Rightarrow> InNode \<Rightarrow> NodeInfo" where
  "toNodeInfo w n =
     \<lparr>ID = in_ID n, Name = in_Name n, Protocol = GetProtocolFromLink w (in_Link n),
      Country = in_Country n, Group = in_Group n\<rparr>"

definition LLMOrganizeNodes :: "world \<Rightarrow> OrganizeReq option \<Rightarrow> response \<times> world" where
  "LLMOrganizeNodes w bound =
     (case bound of
        None \<Rightarrow> (FailWithMsg ([CHR 0xE5, CHR 0x8F, CHR 0x82, CHR 0xE6, CHR 0x95, CHR 0xB0, CHR 0xE9, CHR 0x94, CHR 0x99]
           @ [CHR 0xE8, CHR 0xAF, CHR 0xAF]), w)
      | Some req \<Rightarrow>
          if length (Nodes req) = 0
          then (FailWithMsg ([CHR 0xE8, CHR 0x8A, CHR 0x82, CHR 0xE7, CHR 0x82, CHR 0xB9, CHR 0xE5, CHR 0x88, CHR 0x97]
             @ [CHR 0xE8, CHR 0xA1, CHR 0xA8, CHR 0xE4, CHR 0xB8, CHR 0x8D, CHR 0xE8, CHR 0x83, CHR 0xBD]
             @ [CHR 0xE4, CHR 0xB8, CHR 0xBA, CHR 0xE7, CHR 0xA9, CHR 0xBA]), w)
          else (let nodes = map (toNodeInfo w) (Nodes req)
                in case OrganizeNodes w nodes (Instruction req) of
                     (Inl err, w') \<Rightarrow>
                       (FailWithMsg ((''LLM''
                          @ [CHR 0xE6, CHR 0x95, CHR 0xB4, CHR 0xE7, CHR 0x90, CHR 0x86, CHR 0xE5, CHR 0xA4, CHR 0xB1]
                          @ [CHR 0xE8, CHR 0xB4, CHR 0xA5] @ '': '')
                                     @ Error err), w')
                   | (Inr result, w') \<Rightarrow>
                       (OkDetailed ([CHR 0xE6, CHR 0x95, CHR 0xB4, CHR 0xE7, CHR 0x90, CHR 0x86, CHR 0xE5, CHR 0xAE, CHR 0x8C]
                          @ [CHR 0xE6, CHR 0x88, CHR 0x90])
                                   [(''result'', result)], w')))"

definition LLMGenerateRules :: "world \<Rightarrow> GenerateReq option \<Rightarrow> response \<times> world" where
  "LLMGenerateRules w bound =
     (case bound of
        None \<Rightarrow> (FailWithMsg ([CHR 0xE5, CHR 0x8F, CHR 0x82, CHR 0xE6, CHR 0x95, CHR 0xB0, CHR 0xE9, CHR 0x94, CHR 0x99]
           @ [CHR 0xE8, CHR 0xAF, CHR 0xAF]), w)
      | Some req0 \<Rightarrow>
          if length (gen_Nodes req0) = 0
          then (FailWithMsg ([CHR 0xE8, CHR 0x8A, CHR 0x82, CHR 0xE7, CHR 0x82, CHR 0xB9, CHR 0xE5, CHR 0x88, CHR 0x97]
             @ [CHR 0xE8, CHR 0xA1, CHR 0xA8, CHR 0xE4, CHR 0xB8, CHR 0x8D, CHR 0xE8, CHR 0x83, CHR 0xBD]
             @ [CHR 0xE4, CHR 0xB8, CHR 0xBA, CHR 0xE7, CHR 0xA9, CHR 0xBA]), w)
          else (let req = (if ClientType req0 = '''' then req0\<lparr>ClientType := ''clash''\<rparr> else req0);
                    nodes = map (toNodeInfo w) (gen_Nodes req)
                in case GenerateRules w nodes (ClientType req) (gen_Instruction req) of
                     (Inl err, w') \<Rightarrow>
                       (FailWithMsg (([CHR 0xE8, CHR 0xA7, CHR 0x84, CHR 0xE5, CHR 0x88, CHR 0x99, CHR 0xE7, CHR 0x94, CHR 0x9F]
                          @ [CHR 0xE6, CHR 0x88, CHR 0x90, CHR 0xE5, CHR 0xA4, CHR 0xB1, CHR 0xE8, CHR 0xB4, CHR 0xA5]
                          @ '': '')
                                     @ Error err), w')
                   | (Inr result, w') \<Rightarrow>
                       (OkDetailed ([CHR 0xE7, CHR 0x94, CHR 0x9F, CHR 0xE6, CHR 0x88, CHR 0x90, CHR 0xE5, CHR 0xAE, CHR 0x8C]
                          @ [CHR 0xE6, CHR 0x88, CHR 0x90])
                                   [(''result'', result)], w')))"

definition LLMTestConnection :: "world \<Rightarrow> TestReq option \<Rightarrow> response \<times> world" where
  "LLMTestConnection w bound =
     (case bound of
        None \<Rightarrow> (FailWithMsg ([CHR 0xE5, CHR 0x8F, CHR 0x82, CHR 0xE6, CHR 0x95, CHR 0xB0, CHR 0xE9, CHR 0x94, CHR 0x99]
           @ [CHR 0xE8, CHR 0xAF, CHR 0xAF]), w)
      | Some req0 \<Rightarrow>
          if test_APIUrl req0 = '''' \<or> test_APIKey req0 = ''''
          then (FailWithMsg ((''API URL '' @ [CHR 0xE5, CHR 0x92, CHR 0x8C] @ '' API Key ''
             @ [CHR 0xE4, CHR 0xB8, CHR 0x8D, CHR 0xE8, CHR 0x83, CHR 0xBD, CHR 0xE4, CHR 0xB8, CHR 0xBA]
             @ [CHR 0xE7, CHR 0xA9, CHR 0xBA])), w)
          else (let req = (if test_Model req0 = '''' then req0\<lparr>test_Model := ''gpt-3.5-turbo''\<rparr>
                           else req0);
                    config = \<lparr>APIUrl = test_APIUrl req, APIKey = test_APIKey req,
                              Model = test_Model req\<rparr>
                in case TestConnection w config of
                     (Some err, w') \<Rightarrow>
                       (FailWithMsg (([CHR 0xE8, CHR 0xBF, CHR 0x9E, CHR 0xE6, CHR 0x8E, CHR 0xA5, CHR 0xE6, CHR 0xB5, CHR 0x8B]
                          @ [CHR 0xE8, CHR 0xAF, CHR 0x95, CHR 0xE5, CHR 0xA4, CHR 0xB1, CHR 0xE8, CHR 0xB4, CHR 0xA5]
                          @ '': '')
                                     @ Error err), w')
                   | (None, w') \<Rightarrow>
                       (OkWithMsg ([CHR 0xE8, CHR 0xBF, CHR 0x9E, CHR 0xE6, CHR 0x8E, CHR 0xA5, CHR 0xE6, CHR 0xB5, CHR 0x8B]
                          @ [CHR 0xE8, CHR 0xAF, CHR 0x95, CHR 0xE6, CHR 0x88, CHR 0x90, CHR 0xE5, CHR 0x8A, CHR 0x9F]), w')))"

section \<open>A sample world\<close>

text \<open>
  A concrete world on which the theorems below are exercised: settings with an
  endpoint, a key and no model; a protocol tag that is the scheme of the link; a JSON
  encoder for documents whose strings need no escaping and whose only number that is
  not an integer is 0.7; a decoder that knows three
  response bodies (a single choice, no choice, a single choice with empty content); every URL accepted; and an
  upstream that answers every request with the given status and body.
\<close>

fun sample_encode :: "json \<Rightarrow> string" and sample_members :: "(string \<times> json) list \<Rightarrow> string"
  and sample_elements :: "json list \<Rightarrow> string" where
  "sample_encode (JString s) = [CHR 0x22] @ s @ [CHR 0x22]"
| "sample_encode (JInt i) = Itoa i"
| "sample_encode (JNumber r) = (if r = 7 / 10 then ''0.7'' else ''0'')"
| "sample_encode (JArray js) = ''['' @ sample_elements js @ '']''"
| "sample_encode (JObject ms) = ''{'' @ sample_members ms @ ''}''"
| "sample_members [] = ''''"
| "sample_members ((k, v) # ms) =
     [CHR 0x22] @ k @ [CHR 0x22] @ '':'' @ sample_encode v
     @ (if ms = [] then '''' else '','' @ sample_members ms)"
| "sample_elements [] = ''''"
| "sample_elements (j # js) =
     sample_encode j @ (if js = [] then '''' else '','' @ sample_elements js)"

definition body_one_choice :: string where
  "body_one_choice =
     (''{'' @ [CHR 0x22] @ ''id'' @ [CHR 0x22] @ '':'' @ [CHR 0x22] @ ''r1'' @ [CHR 0x22] @ '',''
        @ [CHR 0x22] @ ''choices'' @ [CHR 0x22] @ '':[{'' @ [CHR 0x22] @ ''index''
        @ [CHR 0x22] @ '':0,'' @ [CHR 0x22] @ ''message'' @ [CHR 0x22] @ '':{'' @ [CHR 0x22]
        @ ''role'' @ [CHR 0x22] @ '':'' @ [CHR 0x22] @ ''assistant'' @ [CHR 0x22] @ '',''
        @ [CHR 0x22] @ ''content'' @ [CHR 0x22] @ '':'' @ [CHR 0x22] @ ''ok'' @ [CHR 0x22]
        @ ''}}]}'')"

definition body_no_choice :: string where
  "body_no_choice =
     (''{'' @ [CHR 0x22] @ ''id'' @ [CHR 0x22] @ '':'' @ [CHR 0x22] @ ''r2'' @ [CHR 0x22] @ '',''
        @ [CHR 0x22] @ ''choices'' @ [CHR 0x22] @ '':[]}'')"

definition chat_one_choice :: ChatResponse where
  "chat_one_choice =
     \<lparr>resp_ID = ''r1'',
      Choices = [\<lparr>Index = 0, Message = \<lparr>Role = ''assistant'', Content = ''ok''\<rparr>\<rparr>]\<rparr>"

definition chat_no_choice :: ChatResponse where
  "chat_no_choice = \<lparr>resp_ID = ''r2'', Choices = []\<rparr>"

definition body_empty_content :: string where
  "body_empty_content =
     (''{'' @ [CHR 0x22] @ ''id'' @ [CHR 0x22] @ '':'' @ [CHR 0x22] @ ''r3'' @ [CHR 0x22] @ '',''
        @ [CHR 0x22] @ ''choices'' @ [CHR 0x22] @ '':[{'' @ [CHR 0x22] @ ''index''
        @ [CHR 0x22] @ '':0,'' @ [CHR 0x22] @ ''message'' @ [CHR 0x22] @ '':{'' @ [CHR 0x22]
        @ ''role'' @ [CHR 0x22] @ '':'' @ [CHR 0x22] @ ''assistant'' @ [CHR 0x22] @ '',''
        @ [CHR 0x22] @ ''content'' @ [CHR 0x22] @ '':'' @ [CHR 0x22, CHR 0x22] @ ''}}]}'')"

definition chat_empty_content :: ChatResponse where
  "chat_empty_content =
     \<lparr>resp_ID = ''r3'',
      Choices = [\<lparr>Index = 0, Message = \<lparr>Role = ''assistant'', Content = ''''\<rparr>\<rparr>]\<rparr>"

definition sample_Unmarshal :: "string \<Rightarrow> string + ChatResponse" where
  "sample_Unmarshal body =
     (if body = body_one_choice then Inr chat_one_choice
      else if body = body_no_choice then Inr chat_no_choice
      else if body = body_empty_content then Inr chat_empty_content
      else Inl ''invalid character'')"

definition sample_settings :: "string \<Rightarrow> string" where
  "sample_settings key =
     (if key = ''llm_api_url'' then ''https://api.openai.com''
      else if key = ''llm_api_key'' then ''sk-sample''
      else '''')"

definition sample_world :: "int \<Rightarrow> string \<Rightarrow> world" where
  "sample_world status body =
     \<lparr>GetSetting = sample_settings,
      GetProtocolFromLink = takeWhile (\<lambda>c. c \<noteq> CHR '':''),
      Marshal = (\<lambda>j. Inr (sample_encode j)),
      Unmarshal = sample_Unmarshal,
      URL_error = (\<lambda>url. None),
      Do = (\<lambda>timeout req. Inr \<lparr>StatusCode = status, ReadAll_Body = Inr body\<rparr>),
      setting_reads = [],
      requests_sent = [],
      info_log = []\<rparr>"

definition sample_config :: LLMConfig where
  "sample_config =
     \<lparr>APIUrl = ''https://api.openai.com'', APIKey = ''sk-sample'', Model = ''gpt-3.5-turbo''\<rparr>"

text \<open>
  The request that \<open>callAPI\<close> hands to the sample upstream for the sample configuration
  and the given messages.
\<close>

definition sample_request :: "ChatMessage list \<Rightarrow> http_request" where
  "sample_request messages =
     \<lparr>Method = ''POST'',
      URL = ''https://api.openai.com/v1/chat/completions'',
      Header = [(''Content-Type'', ''application/json''),
                (''Authorization'', ''Bearer sk-sample'')],
      Body = sample_encode
               (JObject [(''model'', JString ''gpt-3.5-turbo''),
                         (''messages'', JArray (map json_ChatMessage messages)),
                         (''temperature'', JNumber (7 / 10))])\<rparr>"

text \<open>Two nodes, as the llm package receives them, and as a handler receives them.\<close>

definition sample_nodes :: "NodeInfo list" where
  "sample_nodes =
     [\<lparr>ID = 1, Name = ''hk-01'', Protocol = ''vmess'', Country = ''HK'', Group = ''a''\<rparr>,
      \<lparr>ID = 2, Name = ''us-01'', Protocol = ''trojan'', Country = ''US'', Group = ''b''\<rparr>]"

definition sample_in_nodes :: "string \<Rightarrow> string \<Rightarrow> InNode list" where
  "sample_in_nodes secret1 secret2 =
     [\<lparr>in_ID = 1, in_Name = ''hk-01'', in_Link = ''vmess://'' @ secret1,
       in_Country = ''HK'', in_Group = ''a''\<rparr>,
      \<lparr>in_ID = 2, in_Name = ''us-01'', in_Link = ''trojan://'' @ secret2,
       in_Country = ''US'', in_Group = ''b''\<rparr>]"

section \<open>Properties of the string functions\<close>

lemma HasSuffix_iff: "HasSuffix s t \<longleftrightarrow> (\<exists>p. s = p @ t)"
proof
  assume h: "HasSuffix s t"
  have "s = take (length s - length t) s @ drop (length s - length t) s"
    by simp
  with h have "s = take (length s - length t) s @ t"
    by (simp add: HasSuffix_def)
  then show "\<exists>p. s = p @ t" ..
next
  assume "\<exists>p. s = p @ t"
  then show "HasSuffix s t"
    by (auto simp: HasSuffix_def)
qed

lemma takeWhile_eq_replicate:
  "takeWhile (\<lambda>c. c = a) xs = replicate (length (takeWhile (\<lambda>c. c = a) xs)) a"
  by (induction xs) auto

lemma TrimRight_slash_decomp:
  "\<exists>n. s = TrimRight s ''/'' @ replicate n (CHR ''/'')"
proof -
  let ?P = "\<lambda>c. c = CHR ''/''"
  have "rev s = takeWhile ?P (rev s) @ dropWhile ?P (rev s)"
    by simp
  then have "s = rev (dropWhile ?P (rev s)) @ rev (takeWhile ?P (rev s))"
    by (metis rev_append rev_rev_ident)
  moreover have "rev (takeWhile ?P (rev s)) = replicate (length (takeWhile ?P (rev s))) (CHR ''/'')"
    using takeWhile_eq_replicate [of "CHR ''/''" "rev s"] by (metis rev_replicate)
  ultimately have "s = TrimRight s ''/'' @ replicate (length (takeWhile ?P (rev s))) (CHR ''/'')"
    by (simp add: TrimRight_def)
  then show ?thesis ..
qed

lemma TrimRight_slash_no_trailing:
  "TrimRight s ''/'' = [] \<or> last (TrimRight s ''/'') \<noteq> CHR ''/''"
proof (cases "dropWhile (\<lambda>c. c = CHR ''/'') (rev s)")
  case Nil
  then show ?thesis by (simp add: TrimRight_def)
next
  case (Cons y ys)
  then have "y \<noteq> CHR ''/''"
    using hd_dropWhile [of "\<lambda>c. c = CHR ''/''" "rev s"] by auto
  with Cons show ?thesis by (simp add: TrimRight_def)
qed

section \<open>Claims about endpoint normalisation\<close>

text \<open>
  C1.  \<open>buildEndpointURL\<close> is the three-way rule, evaluated in order, for every input
  string: an input that ends with \<open>/chat/completions\<close> is returned unchanged; otherwise
  an input that ends with \<open>/v1\<close> gets exactly \<open>/chat/completions\<close> appended (the input
  does not end with a slash, so no separator is doubled); otherwise the input is split as
  \<open>p\<close> followed by slashes only, where \<open>p\<close> has no trailing slash, and the result is \<open>p\<close>
  followed by one \<open>/v1/chat/completions\<close>.
\<close>

theorem buildEndpointURL_three_way:
  "((\<exists>p. u = p @ ''/chat/completions'') \<longrightarrow> buildEndpointURL u = u) \<and>
   (\<not> (\<exists>p. u = p @ ''/chat/completions'') \<and> (\<exists>p. u = p @ ''/v1'') \<longrightarrow>
      buildEndpointURL u = u @ ''/chat/completions'' \<and> last u \<noteq> CHR ''/'') \<and>
   (\<not> (\<exists>p. u = p @ ''/chat/completions'') \<and> \<not> (\<exists>p. u = p @ ''/v1'') \<longrightarrow>
      (\<exists>p n. u = p @ replicate n (CHR ''/'') \<and> (p = [] \<or> last p \<noteq> CHR ''/'') \<and>
             buildEndpointURL u = p @ ''/v1/chat/completions''))"
proof (intro conjI impI)
  assume "\<exists>p. u = p @ ''/chat/completions''"
  then show "buildEndpointURL u = u"
    by (simp add: buildEndpointURL_def HasSuffix_iff)
next
  assume h: "\<not> (\<exists>p. u = p @ ''/chat/completions'') \<and> (\<exists>p. u = p @ ''/v1'')"
  then show "buildEndpointURL u = u @ ''/chat/completions''"
    by (simp add: buildEndpointURL_def HasSuffix_iff)
  from h show "last u \<noteq> CHR ''/''"
    by auto
next
  assume h: "\<not> (\<exists>p. u = p @ ''/chat/completions'') \<and> \<not> (\<exists>p. u = p @ ''/v1'')"
  then have b: "buildEndpointURL u = TrimRight u ''/'' @ ''/v1/chat/completions''"
    by (simp add: buildEndpointURL_def HasSuffix_iff)
  obtain n where "u = TrimRight u ''/'' @ replicate n (CHR ''/'')"
    using TrimRight_slash_decomp by blast
  with b TrimRight_slash_no_trailing [of u]
  show "\<exists>p n. u = p @ replicate n (CHR ''/'') \<and> (p = [] \<or> last p \<noteq> CHR ''/'') \<and>
             buildEndpointURL u = p @ ''/v1/chat/completions''"
    by blast
qed

theorem buildEndpointURL_three_way_witness:
  "(\<exists>p. ''https://api.openai.com/v1/chat/completions'' = p @ ''/chat/completions'') \<and>
   buildEndpointURL ''https://api.openai.com/v1/chat/completions''
     = ''https://api.openai.com/v1/chat/completions'' \<and>
   \<not> (\<exists>p. ''https://api.openai.com/v1'' = p @ ''/chat/completions'') \<and>
   (\<exists>p. ''https://api.openai.com/v1'' = p @ ''/v1'') \<and>
   buildEndpointURL ''https://api.openai.com/v1'' = ''https://api.openai.com/v1/chat/completions'' \<and>
   \<not> (\<exists>p. ''https://api.openai.com//'' = p @ ''/chat/completions'') \<and>
   \<not> (\<exists>p. ''https://api.openai.com//'' = p @ ''/v1'') \<and>
   (\<exists>p n. ''https://api.openai.com//'' = p @ replicate n (CHR ''/'') \<and>
          (p = [] \<or> last p \<noteq> CHR ''/'') \<and>
          buildEndpointURL ''https://api.openai.com//'' = p @ ''/v1/chat/completions'')"
proof -
  have a1: "\<exists>p. ''https://api.openai.com/v1/chat/completions'' = p @ ''/chat/completions''"
    unfolding HasSuffix_iff [symmetric] by (simp add: HasSuffix_def)
  have b1: "\<not> (\<exists>p. ''https://api.openai.com/v1'' = p @ ''/chat/completions'')"
    unfolding HasSuffix_iff [symmetric] by (simp add: HasSuffix_def)
  have b2: "\<exists>p. ''https://api.openai.com/v1'' = p @ ''/v1''"
    unfolding HasSuffix_iff [symmetric] by (simp add: HasSuffix_def)
  have c1: "\<not> (\<exists>p. ''https://api.openai.com//'' = p @ ''/chat/completions'')"
    unfolding HasSuffix_iff [symmetric] by (simp add: HasSuffix_def)
  have c2: "\<not> (\<exists>p. ''https://api.openai.com//'' = p @ ''/v1'')"
    unfolding HasSuffix_iff [symmetric] by (simp add: HasSuffix_def)
  have r1: "buildEndpointURL ''https://api.openai.com/v1/chat/completions''
              = ''https://api.openai.com/v1/chat/completions''"
    using buildEndpointURL_three_way [of "''https://api.openai.com/v1/chat/completions''"] a1
    by blast
  have r2: "buildEndpointURL ''https://api.openai.com/v1''
              = ''https://api.openai.com/v1'' @ ''/chat/completions''"
    using buildEndpointURL_three_way [of "''https://api.openai.com/v1''"] b1 b2
    by blast
  have r3: "\<exists>p n. ''https://api.openai.com//'' = p @ replicate n (CHR ''/'') \<and>
          (p = [] \<or> last p \<noteq> CHR ''/'') \<and>
          buildEndpointURL ''https://api.openai.com//'' = p @ ''/v1/chat/completions''"
    using buildEndpointURL_three_way [of "''https://api.openai.com//''"] c1 c2
    by blast
  from r2 have r2': "buildEndpointURL ''https://api.openai.com/v1''
              = ''https://api.openai.com/v1/chat/completions''"
    by simp
  from a1 r1 b1 b2 r2' c1 c2 r3 show ?thesis
    by blast
qed

section \<open>The chat-completion call\<close>

subsection \<open>The shape of a call\<close>

lemma json_ChatRequest_callAPI:
  "json_ChatRequest \<lparr>req_Model = m, Messages = ms, Temperature = 7 / 10, MaxTokens = 0\<rparr> =
     JObject [(''model'', JString m),
              (''messages'', JArray (map json_ChatMessage ms)),
              (''temperature'', JNumber (7 / 10))]"
  by (simp add: json_ChatRequest_def)

lemma callAPI_unfold:
  "callAPI w config messages =
     (case Marshal w (JObject [(''model'', JString (Model config)),
                               (''messages'', JArray (map json_ChatMessage messages)),
                               (''temperature'', JNumber (7 / 10))]) of
        Inl err \<Rightarrow> (Inl (SerializeRequestFailed err), w)
      | Inr jsonBody \<Rightarrow>
          (case URL_error w (buildEndpointURL (APIUrl config)) of
             Some err \<Rightarrow> (Inl (CreateRequestFailed err), w)
           | None \<Rightarrow>
               (let req = \<lparr>Method = ''POST'', URL = buildEndpointURL (APIUrl config),
                           Header = [(''Content-Type'', ''application/json''),
                                     (''Authorization'', ''Bearer '' @ APIKey config)],
                           Body = jsonBody\<rparr>
                in (case Do w httpClientTimeout req of
                      Inl err \<Rightarrow> Inl (RequestFailed err)
                    | Inr resp \<Rightarrow>
                        (case ReadAll_Body resp of
                           Inl err \<Rightarrow> Inl (ReadResponseFailed err)
                         | Inr body \<Rightarrow>
                             if StatusCode resp \<noteq> 200
                             then Inl (APIError (StatusCode resp) body)
                             else (case Unmarshal w body of
                                     Inl err \<Rightarrow> Inl (ParseResponseFailed err)
                                   | Inr chatResp \<Rightarrow>
                                       (case Choices chatResp of
                                          [] \<Rightarrow> Inl NoValidResult
                                        | c # cs \<Rightarrow> Inr (Content (Message c))))),
                    w\<lparr>requests_sent := requests_sent w @ [req]\<rparr>))))"
proof (cases "Marshal w (JObject [(''model'', JString (Model config)),
                               (''messages'', JArray (map json_ChatMessage messages)),
                               (''temperature'', JNumber (7 / 10))])")
  case (Inl err)
  then show ?thesis
    by (simp add: callAPI_def json_ChatRequest_callAPI)
next
  case m: (Inr jsonBody)
  show ?thesis
  proof (cases "URL_error w (buildEndpointURL (APIUrl config))")
    case (Some err)
    with m show ?thesis
      by (simp add: callAPI_def json_ChatRequest_callAPI NewRequest_def)
  next
    case None
    with m show ?thesis
      by (simp add: callAPI_def json_ChatRequest_callAPI NewRequest_def Header_Set_def Let_def
               split: sum.split list.split)
  qed
qed

lemma messages_document:
  "map (\<lambda>m. JObject [(''role'', JString (Role m)), (''content'', JString (Content m))]) messages
     = map json_ChatMessage messages"
  by (simp add: json_ChatMessage_def)

lemma callAPI_sent_cases:
  "snd (callAPI w config messages) = w \<or>
   (\<exists>req. snd (callAPI w config messages) = w\<lparr>requests_sent := requests_sent w @ [req]\<rparr>)"
  by (cases "Marshal w (JObject [(''model'', JString (Model config)),
                               (''messages'', JArray (map json_ChatMessage messages)),
                               (''temperature'', JNumber (7 / 10))])";
      cases "URL_error w (buildEndpointURL (APIUrl config))")
     (auto simp add: callAPI_unfold Let_def)

lemma fst_callAPI_setting_reads:
  "fst (callAPI (w\<lparr>setting_reads := reads\<rparr>) config messages) = fst (callAPI w config messages)"
  by (cases "Marshal w (JObject [(''model'', JString (Model config)),
                               (''messages'', JArray (map json_ChatMessage messages)),
                               (''temperature'', JNumber (7 / 10))])";
      cases "URL_error w (buildEndpointURL (APIUrl config))")
     (simp_all add: callAPI_unfold Let_def split: sum.split)

text \<open>The call on the sample world.\<close>

lemma buildEndpointURL_sample:
  "buildEndpointURL ''https://api.openai.com'' = ''https://api.openai.com/v1/chat/completions''"
  by (simp add: buildEndpointURL_def HasSuffix_def TrimRight_def)

lemma callAPI_sample:
  "callAPI (sample_world status body) sample_config messages =
     ((if status \<noteq> 200 then Inl (APIError status body)
       else (case sample_Unmarshal body of
               Inl err \<Rightarrow> Inl (ParseResponseFailed err)
             | Inr chatResp \<Rightarrow>
                 (case Choices chatResp of
                    [] \<Rightarrow> Inl NoValidResult
                  | c # cs \<Rightarrow> Inr (Content (Message c))))),
      (sample_world status body)\<lparr>requests_sent := [sample_request messages]\<rparr>)"
  by (simp add: callAPI_unfold sample_world_def sample_config_def sample_request_def
        buildEndpointURL_sample Let_def del: sample_encode.simps)

subsection \<open>Claims about the chat-completion call\<close>

text \<open>
  C2.  Whenever the request that \<open>callAPI\<close> builds can be sent (the request document is
  serialised and the endpoint URL is accepted) and \<open>client.Do\<close> answers that request
  with status 200 and a body that is read, that parses as a \<open>ChatResponse\<close> and that holds
  at least one choice, \<open>callAPI\<close> succeeds: it returns the content of the first choice
  (index 0) as it is, having handed that one request to \<open>client.Do\<close>.
\<close>

theorem callAPI_success_first_choice:
  assumes "Marshal w (JObject
             [(''model'', JString (Model config)),
              (''messages'',
               JArray (map (\<lambda>m. JObject [(''role'', JString (Role m)),
                                           (''content'', JString (Content m))]) messages)),
              (''temperature'', JNumber (7 / 10))]) = Inr jsonBody"
      and "URL_error w (buildEndpointURL (APIUrl config)) = None"
      and "Do w httpClientTimeout
             \<lparr>Method = ''POST'', URL = buildEndpointURL (APIUrl config),
              Header = [(''Content-Type'', ''application/json''),
                        (''Authorization'', ''Bearer '' @ APIKey config)],
              Body = jsonBody\<rparr> = Inr resp"
      and "StatusCode resp = 200"
      and "ReadAll_Body resp = Inr body"
      and "Unmarshal w body = Inr chatResp"
      and "length (Choices chatResp) \<ge> 1"
  shows "callAPI w config messages =
           (Inr (Content (Message (Choices chatResp ! 0))),
            w\<lparr>requests_sent := requests_sent w @
                 [\<lparr>Method = ''POST'', URL = buildEndpointURL (APIUrl config),
                   Header = [(''Content-Type'', ''application/json''),
                             (''Authorization'', ''Bearer '' @ APIKey config)],
                   Body = jsonBody\<rparr>]\<rparr>)"
proof -
  from assms(7) obtain c cs where "Choices chatResp = c # cs"
    by (cases "Choices chatResp") auto
  with assms(1-6) show ?thesis
    by (simp add: callAPI_unfold messages_document Let_def)
qed

theorem callAPI_success_first_choice_witness:
  "Marshal (sample_world 200 body_one_choice)
     (JObject [(''model'', JString (Model sample_config)),
               (''messages'',
                JArray (map (\<lambda>m. JObject [(''role'', JString (Role m)),
                                            (''content'', JString (Content m))])
                          [\<lparr>Role = ''user'', Content = ''hi''\<rparr>])),
               (''temperature'', JNumber (7 / 10))])
     = Inr (Body (sample_request [\<lparr>Role = ''user'', Content = ''hi''\<rparr>])) \<and>
   URL_error (sample_world 200 body_one_choice) (buildEndpointURL (APIUrl sample_config)) = None \<and>
   Do (sample_world 200 body_one_choice) httpClientTimeout
      (sample_request [\<lparr>Role = ''user'', Content = ''hi''\<rparr>])
     = Inr \<lparr>StatusCode = 200, ReadAll_Body = Inr body_one_choice\<rparr> \<and>
   Unmarshal (sample_world 200 body_one_choice) body_one_choice = Inr chat_one_choice \<and>
   length (Choices chat_one_choice) \<ge> 1 \<and>
   callAPI (sample_world 200 body_one_choice) sample_config [\<lparr>Role = ''user'', Content = ''hi''\<rparr>]
     = (Inr ''ok'',
        (sample_world 200 body_one_choice)
          \<lparr>requests_sent := [sample_request [\<lparr>Role = ''user'', Content = ''hi''\<rparr>]]\<rparr>)"
proof -
  let ?w = "sample_world 200 body_one_choice"
  let ?ms = "[\<lparr>Role = ''user'', Content = ''hi''\<rparr>]"
  let ?resp = "\<lparr>StatusCode = 200, ReadAll_Body = Inr body_one_choice\<rparr>"
  let ?doc = "JObject [(''model'', JString (Model sample_config)),
               (''messages'',
                JArray (map (\<lambda>m. JObject [(''role'', JString (Role m)),
                                            (''content'', JString (Content m))]) ?ms)),
               (''temperature'', JNumber (7 / 10))]"
  let ?req = "\<lparr>Method = ''POST'', URL = buildEndpointURL (APIUrl sample_config),
               Header = [(''Content-Type'', ''application/json''),
                         (''Authorization'', ''Bearer '' @ APIKey sample_config)],
               Body = Body (sample_request ?ms)\<rparr>"
  have q: "?req = sample_request ?ms"
    by (simp add: sample_request_def sample_config_def buildEndpointURL_sample
          del: sample_encode.simps)
  have h1: "Marshal ?w ?doc = Inr (Body (sample_request ?ms))"
    by (simp add: sample_world_def sample_request_def sample_config_def json_ChatMessage_def
          del: sample_encode.simps)
  have h2: "URL_error ?w (buildEndpointURL (APIUrl sample_config)) = None"
    by (simp add: sample_world_def)
  have h3: "Do ?w httpClientTimeout ?req = Inr ?resp"
    by (simp add: sample_world_def)
  have h4: "StatusCode ?resp = 200" by simp
  have h5: "ReadAll_Body ?resp = Inr body_one_choice" by simp
  have h6: "Unmarshal ?w body_one_choice = Inr chat_one_choice"
    by (simp add: sample_world_def sample_Unmarshal_def)
  have h7: "length (Choices chat_one_choice) \<ge> 1"
    by (simp add: chat_one_choice_def)
  have r: "callAPI ?w sample_config ?ms =
             (Inr (Content (Message (Choices chat_one_choice ! 0))),
              ?w\<lparr>requests_sent := requests_sent ?w @ [?req]\<rparr>)"
    by (rule callAPI_success_first_choice [OF h1 h2 h3 h4 h5 h6 h7])
  have c: "Content (Message (Choices chat_one_choice ! 0)) = ''ok''"
    by (simp add: chat_one_choice_def)
  have e: "requests_sent ?w = []"
    by (simp add: sample_world_def)
  have r': "callAPI ?w sample_config ?ms = (Inr ''ok'', ?w\<lparr>requests_sent := [sample_request ?ms]\<rparr>)"
    using r unfolding q c e by simp
  have h3': "Do ?w httpClientTimeout (sample_request ?ms) = Inr ?resp"
    by (simp add: sample_world_def)
  from h1 h2 h3' h6 h7 r' show ?thesis
    by (intro conjI)
qed

text \<open>
  C3, as amended.  \<open>callAPI\<close> compares the status of the response that \<open>client.Do\<close> returns
  with 200, not with the range 200 to 299.  (The client follows redirects, so that
  response is the last one of the exchange, and one call of \<open>client.Do\<close> may be several
  HTTP round trips; the theorem counts calls of \<open>client.Do\<close>.)
  \<^item> Whenever the request that \<open>callAPI\<close> builds can be sent and \<open>client.Do\<close> returns for it
    a response whose body is read and whose status is not 200, \<open>callAPI\<close> fails with the
    upstream error carrying that status and that body, after that one call of
    \<open>client.Do\<close>.
  \<^item> Conversely, an upstream error of \<open>callAPI\<close> carries a status other than 200 and the
    body, both taken from the response that \<open>client.Do\<close> returned for the request built,
    and \<open>client.Do\<close> was called exactly once.
  \<^item> The message of the error holds the status in decimal and the body verbatim.
  \<^item> \<open>callAPI\<close> succeeds only when the response returned has status 200.
  \<^item> In every invocation \<open>client.Do\<close> is called at most once: \<open>callAPI\<close> has no retry.
\<close>

theorem callAPI_upstream_error_iff_not_200:
  "(\<forall>jsonBody resp body.
      Marshal w (JObject
        [(''model'', JString (Model config)),
         (''messages'',
          JArray (map (\<lambda>m. JObject [(''role'', JString (Role m)),
                                      (''content'', JString (Content m))]) messages)),
         (''temperature'', JNumber (7 / 10))]) = Inr jsonBody \<and>
      URL_error w (buildEndpointURL (APIUrl config)) = None \<and>
      Do w httpClientTimeout
         \<lparr>Method = ''POST'', URL = buildEndpointURL (APIUrl config),
          Header = [(''Content-Type'', ''application/json''),
                    (''Authorization'', ''Bearer '' @ APIKey config)],
          Body = jsonBody\<rparr> = Inr resp \<and>
      ReadAll_Body resp = Inr body \<and> StatusCode resp \<noteq> 200 \<longrightarrow>
      callAPI w config messages =
        (Inl (APIError (StatusCode resp) body),
         w\<lparr>requests_sent := requests_sent w @
              [\<lparr>Method = ''POST'', URL = buildEndpointURL (APIUrl config),
                Header = [(''Content-Type'', ''application/json''),
                          (''Authorization'', ''Bearer '' @ APIKey config)],
                Body = jsonBody\<rparr>]\<rparr>)) \<and>
   (\<forall>code body.
      fst (callAPI w config messages) = Inl (APIError code body) \<longrightarrow>
      code \<noteq> 200 \<and>
      (\<exists>jsonBody resp.
         Marshal w (JObject
           [(''model'', JString (Model config)),
            (''messages'',
             JArray (map (\<lambda>m. JObject [(''role'', JString (Role m)),
                                         (''content'', JString (Content m))]) messages)),
            (''temperature'', JNumber (7 / 10))]) = Inr jsonBody \<and>
         URL_error w (buildEndpointURL (APIUrl config)) = None \<and>
         Do w httpClientTimeout
            \<lparr>Method = ''POST'', URL = buildEndpointURL (APIUrl config),
             Header = [(''Content-Type'', ''application/json''),
                       (''Authorization'', ''Bearer '' @ APIKey config)],
             Body = jsonBody\<rparr> = Inr resp \<and>
         StatusCode resp = code \<and> ReadAll_Body resp = Inr body \<and>
         snd (callAPI w config messages) =
           w\<lparr>requests_sent := requests_sent w @
                [\<lparr>Method = ''POST'', URL = buildEndpointURL (APIUrl config),
                  Header = [(''Content-Type'', ''application/json''),
                            (''Authorization'', ''Bearer '' @ APIKey config)],
                  Body = jsonBody\<rparr>]\<rparr>)) \<and>
   (\<exists>pre. \<forall>code body.
      Error (APIError code body) = pre @ ''(HTTP '' @ Itoa code @ ''): '' @ body) \<and>
   (\<forall>result.
      fst (callAPI w config messages) = Inr result \<longrightarrow>
      (\<exists>jsonBody resp.
         Marshal w (JObject
           [(''model'', JString (Model config)),
            (''messages'',
             JArray (map (\<lambda>m. JObject [(''role'', JString (Role m)),
                                         (''content'', JString (Content m))]) messages)),
            (''temperature'', JNumber (7 / 10))]) = Inr jsonBody \<and>
         Do w httpClientTimeout
            \<lparr>Method = ''POST'', URL = buildEndpointURL (APIUrl config),
             Header = [(''Content-Type'', ''application/json''),
                       (''Authorization'', ''Bearer '' @ APIKey config)],
             Body = jsonBody\<rparr> = Inr resp \<and>
         StatusCode resp = 200)) \<and>
   (snd (callAPI w config messages) = w \<or>
    (\<exists>req. snd (callAPI w config messages) = w\<lparr>requests_sent := requests_sent w @ [req]\<rparr>))"
proof (intro conjI allI impI)
  fix jsonBody resp body
  assume "Marshal w (JObject
        [(''model'', JString (Model config)),
         (''messages'',
          JArray (map (\<lambda>m. JObject [(''role'', JString (Role m)),
                                      (''content'', JString (Content m))]) messages)),
         (''temperature'', JNumber (7 / 10))]) = Inr jsonBody \<and>
      URL_error w (buildEndpointURL (APIUrl config)) = None \<and>
      Do w httpClientTimeout
         \<lparr>Method = ''POST'', URL = buildEndpointURL (APIUrl config),
          Header = [(''Content-Type'', ''application/json''),
                    (''Authorization'', ''Bearer '' @ APIKey config)],
          Body = jsonBody\<rparr> = Inr resp \<and>
      ReadAll_Body resp = Inr body \<and> StatusCode resp \<noteq> 200"
  then show "callAPI w config messages =
        (Inl (APIError (StatusCode resp) body),
         w\<lparr>requests_sent := requests_sent w @
              [\<lparr>Method = ''POST'', URL = buildEndpointURL (APIUrl config),
                Header = [(''Content-Type'', ''application/json''),
                          (''Authorization'', ''Bearer '' @ APIKey config)],
                Body = jsonBody\<rparr>]\<rparr>)"
    by (simp add: callAPI_unfold messages_document Let_def)
next
  fix code body
  assume h: "fst (callAPI w config messages) = Inl (APIError code body)"
  then show "code \<noteq> 200"
    by (auto simp add: callAPI_unfold Let_def
             split: sum.split_asm option.split_asm if_split_asm list.split_asm)
  from h show "\<exists>jsonBody resp.
         Marshal w (JObject
           [(''model'', JString (Model config)),
            (''messages'',
             JArray (map (\<lambda>m. JObject [(''role'', JString (Role m)),
                                         (''content'', JString (Content m))]) messages)),
            (''temperature'', JNumber (7 / 10))]) = Inr jsonBody \<and>
         URL_error w (buildEndpointURL (APIUrl config)) = None \<and>
         Do w httpClientTimeout
            \<lparr>Method = ''POST'', URL = buildEndpointURL (APIUrl config),
             Header = [(''Content-Type'', ''application/json''),
                       (''Authorization'', ''Bearer '' @ APIKey config)],
             Body = jsonBody\<rparr> = Inr resp \<and>
         StatusCode resp = code \<and> ReadAll_Body resp = Inr body \<and>
         snd (callAPI w config messages) =
           w\<lparr>requests_sent := requests_sent w @
                [\<lparr>Method = ''POST'', URL = buildEndpointURL (APIUrl config),
                  Header = [(''Content-Type'', ''application/json''),
                            (''Authorization'', ''Bearer '' @ APIKey config)],
                  Body = jsonBody\<rparr>]\<rparr>"
    unfolding messages_document
    by (auto simp add: callAPI_unfold Let_def
             split: sum.split_asm option.split_asm if_split_asm list.split_asm)
next
  show "\<exists>pre. \<forall>code body.
      Error (APIError code body) = pre @ ''(HTTP '' @ Itoa code @ ''): '' @ body"
    by (rule exI [of _ "(''LLM API''
       @ [CHR 0xE8, CHR 0xBF, CHR 0x94, CHR 0xE5, CHR 0x9B, CHR 0x9E, CHR 0xE9, CHR 0x94, CHR 0x99]
       @ [CHR 0xE8, CHR 0xAF, CHR 0xAF] @ '' '')"]) simp
next
  fix result
  assume h: "fst (callAPI w config messages) = Inr result"
  then show "\<exists>jsonBody resp.
         Marshal w (JObject
           [(''model'', JString (Model config)),
            (''messages'',
             JArray (map (\<lambda>m. JObject [(''role'', JString (Role m)),
                                         (''content'', JString (Content m))]) messages)),
            (''temperature'', JNumber (7 / 10))]) = Inr jsonBody \<and>
         Do w httpClientTimeout
            \<lparr>Method = ''POST'', URL = buildEndpointURL (APIUrl config),
             Header = [(''Content-Type'', ''application/json''),
                       (''Authorization'', ''Bearer '' @ APIKey config)],
             Body = jsonBody\<rparr> = Inr resp \<and>
         StatusCode resp = 200"
    unfolding messages_document
    by (auto simp add: callAPI_unfold Let_def
             split: sum.split_asm option.split_asm if_split_asm list.split_asm)
next
  show "snd (callAPI w config messages) = w \<or>
    (\<exists>req. snd (callAPI w config messages) = w\<lparr>requests_sent := requests_sent w @ [req]\<rparr>)"
    by (rule callAPI_sent_cases)
qed

theorem callAPI_upstream_error_iff_not_200_witness:
  "Marshal (sample_world 503 ''busy'')
     (JObject [(''model'', JString (Model sample_config)),
               (''messages'',
                JArray (map (\<lambda>m. JObject [(''role'', JString (Role m)),
                                            (''content'', JString (Content m))])
                          [\<lparr>Role = ''user'', Content = ''hi''\<rparr>])),
               (''temperature'', JNumber (7 / 10))])
     = Inr (Body (sample_request [\<lparr>Role = ''user'', Content = ''hi''\<rparr>])) \<and>
   URL_error (sample_world 503 ''busy'') (buildEndpointURL (APIUrl sample_config)) = None \<and>
   Do (sample_world 503 ''busy'') httpClientTimeout
      (sample_request [\<lparr>Role = ''user'', Content = ''hi''\<rparr>])
     = Inr \<lparr>StatusCode = 503, ReadAll_Body = Inr ''busy''\<rparr> \<and>
   callAPI (sample_world 503 ''busy'') sample_config [\<lparr>Role = ''user'', Content = ''hi''\<rparr>]
     = (Inl (APIError 503 ''busy''),
        (sample_world 503 ''busy'')
          \<lparr>requests_sent := [sample_request [\<lparr>Role = ''user'', Content = ''hi''\<rparr>]]\<rparr>) \<and>
   (503 :: int) \<noteq> 200 \<and>
   (\<exists>pre. Error (APIError 503 ''busy'') = pre @ ''(HTTP 503): busy'') \<and>
   fst (callAPI (sample_world 200 body_one_choice) sample_config
          [\<lparr>Role = ''user'', Content = ''hi''\<rparr>]) = Inr ''ok'' \<and>
   (\<exists>jsonBody resp.
      Do (sample_world 200 body_one_choice) httpClientTimeout
         \<lparr>Method = ''POST'', URL = buildEndpointURL (APIUrl sample_config),
          Header = [(''Content-Type'', ''application/json''),
                    (''Authorization'', ''Bearer '' @ APIKey sample_config)],
          Body = jsonBody\<rparr> = Inr resp \<and>
      StatusCode resp = 200)"
proof -
  let ?w = "sample_world 503 ''busy''"
  let ?v = "sample_world 200 body_one_choice"
  let ?ms = "[\<lparr>Role = ''user'', Content = ''hi''\<rparr>]"
  let ?resp = "\<lparr>StatusCode = 503, ReadAll_Body = Inr ''busy''\<rparr>"
  let ?doc = "JObject [(''model'', JString (Model sample_config)),
               (''messages'',
                JArray (map (\<lambda>m. JObject [(''role'', JString (Role m)),
                                            (''content'', JString (Content m))]) ?ms)),
               (''temperature'', JNumber (7 / 10))]"
  let ?req = "\<lparr>Method = ''POST'', URL = buildEndpointURL (APIUrl sample_config),
               Header = [(''Content-Type'', ''application/json''),
                         (''Authorization'', ''Bearer '' @ APIKey sample_config)],
               Body = Body (sample_request ?ms)\<rparr>"
  have q: "?req = sample_request ?ms"
    by (simp add: sample_request_def sample_config_def buildEndpointURL_sample
          del: sample_encode.simps)
  have h1: "Marshal ?w ?doc = Inr (Body (sample_request ?ms))"
    by (simp add: sample_world_def sample_request_def sample_config_def json_ChatMessage_def
          del: sample_encode.simps)
  have h2: "URL_error ?w (buildEndpointURL (APIUrl sample_config)) = None"
    by (simp add: sample_world_def)
  have h3: "Do ?w httpClientTimeout ?req = Inr ?resp"
    by (simp add: sample_world_def)
  have h3': "Do ?w httpClientTimeout (sample_request ?ms) = Inr ?resp"
    by (simp add: sample_world_def)
  have h4: "ReadAll_Body ?resp = Inr ''busy''" "StatusCode ?resp \<noteq> 200"
    by simp_all
  have prem: "Marshal ?w ?doc = Inr (Body (sample_request ?ms)) \<and>
      URL_error ?w (buildEndpointURL (APIUrl sample_config)) = None \<and>
      Do ?w httpClientTimeout ?req = Inr ?resp \<and>
      ReadAll_Body ?resp = Inr ''busy'' \<and> StatusCode ?resp \<noteq> 200"
    using h1 h2 h3 h4 by (intro conjI)
  have "callAPI ?w sample_config ?ms =
          (Inl (APIError (StatusCode ?resp) ''busy''),
           ?w\<lparr>requests_sent := requests_sent ?w @ [?req]\<rparr>)"
    by (rule callAPI_upstream_error_iff_not_200 [of ?w sample_config ?ms,
            THEN conjunct1, rule_format, OF prem])
  then have r1: "callAPI ?w sample_config ?ms =
          (Inl (APIError 503 ''busy''), ?w\<lparr>requests_sent := [sample_request ?ms]\<rparr>)"
    unfolding q by (simp add: sample_world_def)
  then have f1: "fst (callAPI ?w sample_config ?ms) = Inl (APIError 503 ''busy'')"
    by simp
  have r2: "(503 :: int) \<noteq> 200"
    by (rule callAPI_upstream_error_iff_not_200 [of ?w sample_config ?ms,
            THEN conjunct2, THEN conjunct1, rule_format, OF f1, THEN conjunct1])
  have i: "Itoa 503 = ''503''"
    by code_simp
  obtain pre where
    p: "\<forall>code body. Error (APIError code body) = pre @ ''(HTTP '' @ Itoa code @ ''): '' @ body"
    using callAPI_upstream_error_iff_not_200 [of ?w sample_config ?ms,
            THEN conjunct2, THEN conjunct2, THEN conjunct1]
    by blast
  have "Error (APIError 503 ''busy'') = pre @ ''(HTTP '' @ Itoa 503 @ ''): '' @ ''busy''"
    by (rule p [rule_format])
  also have "pre @ ''(HTTP '' @ Itoa 503 @ ''): '' @ ''busy'' = pre @ ''(HTTP 503): busy''"
    by (simp add: i)
  finally have "Error (APIError 503 ''busy'') = pre @ ''(HTTP 503): busy''" .
  then have r4: "\<exists>pre. Error (APIError 503 ''busy'') = pre @ ''(HTTP 503): busy''"
    by blast
  have s1: "fst (callAPI ?v sample_config ?ms) = Inr ''ok''"
    by (simp add: callAPI_sample sample_Unmarshal_def chat_one_choice_def)
  have "\<exists>jsonBody resp.
      Marshal ?v ?doc = Inr jsonBody \<and>
      Do ?v httpClientTimeout
         \<lparr>Method = ''POST'', URL = buildEndpointURL (APIUrl sample_config),
          Header = [(''Content-Type'', ''application/json''),
                    (''Authorization'', ''Bearer '' @ APIKey sample_config)],
          Body = jsonBody\<rparr> = Inr resp \<and>
      StatusCode resp = 200"
    by (rule callAPI_upstream_error_iff_not_200 [of ?v sample_config ?ms,
            THEN conjunct2, THEN conjunct2, THEN conjunct2, THEN conjunct1,
            rule_format, OF s1])
  then have r3: "\<exists>jsonBody resp.
      Do ?v httpClientTimeout
         \<lparr>Method = ''POST'', URL = buildEndpointURL (APIUrl sample_config),
          Header = [(''Content-Type'', ''application/json''),
                    (''Authorization'', ''Bearer '' @ APIKey sample_config)],
          Body = jsonBody\<rparr> = Inr resp \<and>
      StatusCode resp = 200"
    by blast
  from h1 h2 h3' r1 r2 r4 s1 r3 show ?thesis
    by (intro conjI)
qed

text \<open>
  C3 as stated fails for a status in the range 200 to 299 other than 200: the sample
  upstream answers with status 201 and a body that holds one choice, and \<open>callAPI\<close>
  returns the upstream error.
\<close>

theorem callAPI_status_201_counterexample:
  "Do (sample_world 201 body_one_choice) httpClientTimeout
      (sample_request [\<lparr>Role = ''user'', Content = ''hi''\<rparr>])
     = Inr \<lparr>StatusCode = 201, ReadAll_Body = Inr body_one_choice\<rparr> \<and>
   requests_sent (snd (callAPI (sample_world 201 body_one_choice) sample_config
                         [\<lparr>Role = ''user'', Content = ''hi''\<rparr>]))
     = [sample_request [\<lparr>Role = ''user'', Content = ''hi''\<rparr>]] \<and>
   (200 :: int) \<le> 201 \<and> (201 :: int) < 300 \<and>
   fst (callAPI (sample_world 201 body_one_choice) sample_config
          [\<lparr>Role = ''user'', Content = ''hi''\<rparr>])
     = Inl (APIError 201 body_one_choice)"
  by (simp add: callAPI_sample) (simp add: sample_world_def)

text \<open>
  C4.  Whenever the request that \<open>callAPI\<close> builds can be sent and \<open>client.Do\<close> answers it
  with status 200 and a body that is read: a body that \<open>json.Unmarshal\<close> rejects makes
  \<open>callAPI\<close> fail with the parse-failure error; a body that parses to a response with no
  choice makes it fail with the empty-result error; and the two errors differ, as values
  and as messages.
\<close>

theorem callAPI_parse_failure_and_empty_result:
  assumes "Marshal w (JObject
             [(''model'', JString (Model config)),
              (''messages'',
               JArray (map (\<lambda>m. JObject [(''role'', JString (Role m)),
                                           (''content'', JString (Content m))]) messages)),
              (''temperature'', JNumber (7 / 10))]) = Inr jsonBody"
      and "URL_error w (buildEndpointURL (APIUrl config)) = None"
      and "Do w httpClientTimeout
             \<lparr>Method = ''POST'', URL = buildEndpointURL (APIUrl config),
              Header = [(''Content-Type'', ''application/json''),
                        (''Authorization'', ''Bearer '' @ APIKey config)],
              Body = jsonBody\<rparr> = Inr resp"
      and "StatusCode resp = 200"
      and "ReadAll_Body resp = Inr body"
  shows "(\<forall>err. Unmarshal w body = Inl err \<longrightarrow>
            fst (callAPI w config messages) = Inl (ParseResponseFailed err)) \<and>
         (\<forall>chatResp. Unmarshal w body = Inr chatResp \<and> length (Choices chatResp) = 0 \<longrightarrow>
            fst (callAPI w config messages) = Inl NoValidResult) \<and>
         (\<forall>err. ParseResponseFailed err \<noteq> NoValidResult \<and>
                Error (ParseResponseFailed err) \<noteq> Error NoValidResult)"
  using assms
  by (simp add: callAPI_unfold messages_document Let_def)

theorem callAPI_parse_failure_and_empty_result_witness:
  "Marshal (sample_world 200 ''<html>'')
     (JObject [(''model'', JString (Model sample_config)),
               (''messages'',
                JArray (map (\<lambda>m. JObject [(''role'', JString (Role m)),
                                            (''content'', JString (Content m))])
                          [\<lparr>Role = ''user'', Content = ''hi''\<rparr>])),
               (''temperature'', JNumber (7 / 10))])
     = Inr (Body (sample_request [\<lparr>Role = ''user'', Content = ''hi''\<rparr>])) \<and>
   URL_error (sample_world 200 ''<html>'') (buildEndpointURL (APIUrl sample_config)) = None \<and>
   Do (sample_world 200 ''<html>'') httpClientTimeout
      (sample_request [\<lparr>Role = ''user'', Content = ''hi''\<rparr>])
     = Inr \<lparr>StatusCode = 200, ReadAll_Body = Inr ''<html>''\<rparr> \<and>
   Unmarshal (sample_world 200 ''<html>'') ''<html>'' = Inl ''invalid character'' \<and>
   fst (callAPI (sample_world 200 ''<html>'') sample_config [\<lparr>Role = ''user'', Content = ''hi''\<rparr>])
     = Inl (ParseResponseFailed ''invalid character'') \<and>
   Do (sample_world 200 body_no_choice) httpClientTimeout
      (sample_request [\<lparr>Role = ''user'', Content = ''hi''\<rparr>])
     = Inr \<lparr>StatusCode = 200, ReadAll_Body = Inr body_no_choice\<rparr> \<and>
   Unmarshal (sample_world 200 body_no_choice) body_no_choice = Inr chat_no_choice \<and>
   length (Choices chat_no_choice) = 0 \<and>
   fst (callAPI (sample_world 200 body_no_choice) sample_config
          [\<lparr>Role = ''user'', Content = ''hi''\<rparr>])
     = Inl NoValidResult"
proof -
  let ?ms = "[\<lparr>Role = ''user'', Content = ''hi''\<rparr>]"
  let ?doc = "JObject [(''model'', JString (Model sample_config)),
               (''messages'',
                JArray (map (\<lambda>m. JObject [(''role'', JString (Role m)),
                                            (''content'', JString (Content m))]) ?ms)),
               (''temperature'', JNumber (7 / 10))]"
  let ?req = "\<lparr>Method = ''POST'', URL = buildEndpointURL (APIUrl sample_config),
               Header = [(''Content-Type'', ''application/json''),
                         (''Authorization'', ''Bearer '' @ APIKey sample_config)],
               Body = Body (sample_request ?ms)\<rparr>"
  have h1: "Marshal (sample_world 200 b) ?doc = Inr (Body (sample_request ?ms))" for b
    by (simp add: sample_world_def sample_request_def sample_config_def json_ChatMessage_def
          del: sample_encode.simps)
  have h2: "URL_error (sample_world 200 b) (buildEndpointURL (APIUrl sample_config)) = None" for b
    by (simp add: sample_world_def)
  have h3: "Do (sample_world 200 b) httpClientTimeout ?req
              = Inr \<lparr>StatusCode = 200, ReadAll_Body = Inr b\<rparr>" for b
    by (simp add: sample_world_def)
  have h3': "Do (sample_world 200 b) httpClientTimeout (sample_request ?ms)
              = Inr \<lparr>StatusCode = 200, ReadAll_Body = Inr b\<rparr>" for b
    by (simp add: sample_world_def)
  have h4: "StatusCode \<lparr>StatusCode = 200, ReadAll_Body = Inr b\<rparr> = 200" for b :: string
    by simp
  have h5: "ReadAll_Body \<lparr>StatusCode = 200, ReadAll_Body = Inr b\<rparr> = Inr b" for b :: string
    by simp
  have u1: "Unmarshal (sample_world 200 ''<html>'') ''<html>'' = Inl ''invalid character''"
    by (simp add: sample_world_def sample_Unmarshal_def body_one_choice_def body_no_choice_def
          body_empty_content_def)
  have u2: "Unmarshal (sample_world 200 body_no_choice) body_no_choice = Inr chat_no_choice"
    by (simp add: sample_world_def sample_Unmarshal_def body_one_choice_def body_no_choice_def
          body_empty_content_def)
  have u3: "length (Choices chat_no_choice) = 0"
    by (simp add: chat_no_choice_def)
  note t1 = callAPI_parse_failure_and_empty_result
              [OF h1 [of "''<html>''"] h2 [of "''<html>''"] h3 [of "''<html>''"]
                  h4 [of "''<html>''"] h5 [of "''<html>''"]]
  note t2 = callAPI_parse_failure_and_empty_result
              [OF h1 [of body_no_choice] h2 [of body_no_choice] h3 [of body_no_choice]
                  h4 [of body_no_choice] h5 [of body_no_choice]]
  have r1: "fst (callAPI (sample_world 200 ''<html>'') sample_config ?ms)
              = Inl (ParseResponseFailed ''invalid character'')"
    by (rule t1 [THEN conjunct1, rule_format, OF u1])
  have u23: "Unmarshal (sample_world 200 body_no_choice) body_no_choice = Inr chat_no_choice \<and>
             length (Choices chat_no_choice) = 0"
    using u2 u3 by (intro conjI)
  have r2: "fst (callAPI (sample_world 200 body_no_choice) sample_config ?ms) = Inl NoValidResult"
    by (rule t2 [THEN conjunct2, THEN conjunct1, rule_format, OF u23])
  from h1 [of "''<html>''"] h2 [of "''<html>''"] h3' [of "''<html>''"] u1 r1
       h3' [of body_no_choice] u2 u3 r2
  show ?thesis
    by (intro conjI)
qed

text \<open>
  C7.  The JSON document that \<open>callAPI\<close> serialises has exactly three members: \<open>model\<close>,
  the model of the configuration; \<open>messages\<close>, the input messages in their order, each
  with its role and its content as given; and \<open>temperature\<close>, 0.7.  It has no member
  \<open>max_tokens\<close>.  The body of the request sent is the text of that document: whenever a
  request is sent its body is that text, and whenever the document is serialised and
  the endpoint URL is accepted a request with that body is sent.
\<close>

theorem callAPI_request_body:
  "(\<forall>req. requests_sent (snd (callAPI w config messages)) = requests_sent w @ [req] \<longrightarrow>
      Marshal w (JObject
        [(''model'', JString (Model config)),
         (''messages'',
          JArray (map (\<lambda>m. JObject [(''role'', JString (Role m)),
                                      (''content'', JString (Content m))]) messages)),
         (''temperature'', JNumber (7 / 10))]) = Inr (Body req)) \<and>
   (\<forall>jsonBody.
      Marshal w (JObject
        [(''model'', JString (Model config)),
         (''messages'',
          JArray (map (\<lambda>m. JObject [(''role'', JString (Role m)),
                                      (''content'', JString (Content m))]) messages)),
         (''temperature'', JNumber (7 / 10))]) = Inr jsonBody \<and>
      URL_error w (buildEndpointURL (APIUrl config)) = None \<longrightarrow>
      (\<exists>req. requests_sent (snd (callAPI w config messages)) = requests_sent w @ [req] \<and>
             Body req = jsonBody))"
proof -
  have m: "map (\<lambda>m. JObject [(''role'', JString (Role m)),
                              (''content'', JString (Content m))]) messages
             = map json_ChatMessage messages"
    by (simp add: json_ChatMessage_def)
  show ?thesis
    unfolding m
    by (cases "Marshal w (JObject [(''model'', JString (Model config)),
                               (''messages'', JArray (map json_ChatMessage messages)),
                               (''temperature'', JNumber (7 / 10))])";
        cases "URL_error w (buildEndpointURL (APIUrl config))")
       (auto simp add: callAPI_unfold Let_def)
qed

theorem callAPI_request_body_witness:
  "requests_sent (snd (callAPI (sample_world 200 body_one_choice) sample_config
                         [\<lparr>Role = ''user'', Content = ''hi''\<rparr>]))
     = requests_sent (sample_world 200 body_one_choice)
       @ [sample_request [\<lparr>Role = ''user'', Content = ''hi''\<rparr>]] \<and>
   Marshal (sample_world 200 body_one_choice)
     (JObject [(''model'', JString (Model sample_config)),
               (''messages'', JArray [JObject [(''role'', JString ''user''),
                                               (''content'', JString ''hi'')]]),
               (''temperature'', JNumber (7 / 10))])
     = Inr (''{'' @ [CHR 0x22] @ ''model'' @ [CHR 0x22] @ '':'' @ [CHR 0x22] @ ''gpt-3.5-turbo''
        @ [CHR 0x22] @ '','' @ [CHR 0x22] @ ''messages'' @ [CHR 0x22] @ '':[{'' @ [CHR 0x22]
        @ ''role'' @ [CHR 0x22] @ '':'' @ [CHR 0x22] @ ''user'' @ [CHR 0x22] @ '',''
        @ [CHR 0x22] @ ''content'' @ [CHR 0x22] @ '':'' @ [CHR 0x22] @ ''hi'' @ [CHR 0x22]
        @ ''}],'' @ [CHR 0x22] @ ''temperature'' @ [CHR 0x22] @ '':0.7}'') \<and>
   Body (sample_request [\<lparr>Role = ''user'', Content = ''hi''\<rparr>])
     = (''{'' @ [CHR 0x22] @ ''model'' @ [CHR 0x22] @ '':'' @ [CHR 0x22] @ ''gpt-3.5-turbo''
        @ [CHR 0x22] @ '','' @ [CHR 0x22] @ ''messages'' @ [CHR 0x22] @ '':[{'' @ [CHR 0x22]
        @ ''role'' @ [CHR 0x22] @ '':'' @ [CHR 0x22] @ ''user'' @ [CHR 0x22] @ '',''
        @ [CHR 0x22] @ ''content'' @ [CHR 0x22] @ '':'' @ [CHR 0x22] @ ''hi'' @ [CHR 0x22]
        @ ''}],'' @ [CHR 0x22] @ ''temperature'' @ [CHR 0x22] @ '':0.7}'') \<and>
   URL_error (sample_world 200 body_one_choice) (buildEndpointURL (APIUrl sample_config)) = None \<and>
   (\<exists>req. requests_sent (snd (callAPI (sample_world 200 body_one_choice) sample_config
                                [\<lparr>Role = ''user'', Content = ''hi''\<rparr>]))
            = requests_sent (sample_world 200 body_one_choice) @ [req] \<and>
          Body req
            = (''{'' @ [CHR 0x22] @ ''model'' @ [CHR 0x22] @ '':'' @ [CHR 0x22] @ ''gpt-3.5-turbo''
               @ [CHR 0x22] @ '','' @ [CHR 0x22] @ ''messages'' @ [CHR 0x22] @ '':[{''
               @ [CHR 0x22] @ ''role'' @ [CHR 0x22] @ '':'' @ [CHR 0x22] @ ''user''
               @ [CHR 0x22] @ '','' @ [CHR 0x22] @ ''content'' @ [CHR 0x22] @ '':''
               @ [CHR 0x22] @ ''hi'' @ [CHR 0x22] @ ''}],'' @ [CHR 0x22] @ ''temperature''
               @ [CHR 0x22] @ '':0.7}''))"
proof -
  let ?w = "sample_world 200 body_one_choice"
  let ?ms = "[\<lparr>Role = ''user'', Content = ''hi''\<rparr>]"
  let ?doc = "JObject [(''model'', JString (Model sample_config)),
               (''messages'',
                JArray (map (\<lambda>m. JObject [(''role'', JString (Role m)),
                                            (''content'', JString (Content m))]) ?ms)),
               (''temperature'', JNumber (7 / 10))]"
  let ?body = "(''{'' @ [CHR 0x22] @ ''model'' @ [CHR 0x22] @ '':'' @ [CHR 0x22] @ ''gpt-3.5-turbo''
     @ [CHR 0x22] @ '','' @ [CHR 0x22] @ ''messages'' @ [CHR 0x22] @ '':[{'' @ [CHR 0x22]
     @ ''role'' @ [CHR 0x22] @ '':'' @ [CHR 0x22] @ ''user'' @ [CHR 0x22] @ '',''
     @ [CHR 0x22] @ ''content'' @ [CHR 0x22] @ '':'' @ [CHR 0x22] @ ''hi'' @ [CHR 0x22]
     @ ''}],'' @ [CHR 0x22] @ ''temperature'' @ [CHR 0x22] @ '':0.7}'')"
  have h1: "requests_sent (snd (callAPI ?w sample_config ?ms))
              = requests_sent ?w @ [sample_request ?ms]"
    by (simp add: callAPI_sample) (simp add: sample_world_def)
  have b: "Body (sample_request ?ms) = ?body"
    by (simp add: sample_request_def json_ChatMessage_def)
  have m1: "Marshal ?w ?doc = Inr (Body (sample_request ?ms))"
    using callAPI_request_body [of ?w sample_config ?ms, THEN conjunct1, rule_format,
            of "sample_request ?ms"] h1
    by blast
  have u: "URL_error ?w (buildEndpointURL (APIUrl sample_config)) = None"
    by (simp add: sample_world_def)
  have m2: "Marshal ?w ?doc = Inr ?body"
    using m1 b by simp
  have e: "\<exists>req. requests_sent (snd (callAPI ?w sample_config ?ms)) = requests_sent ?w @ [req] \<and>
             Body req = ?body"
    using callAPI_request_body [of ?w sample_config ?ms, THEN conjunct2, rule_format,
            of ?body] m2 u
    by blast
  from h1 m2 b u e show ?thesis
    by simp
qed

section \<open>Configuration, prompts and handlers\<close>

lemma GetConfig_unfold:
  "GetConfig w =
     (if GetSetting w ''llm_api_url'' = '''' then Inl URLNotConfigured
      else if GetSetting w ''llm_api_key'' = '''' then Inl KeyNotConfigured
      else Inr \<lparr>APIUrl = GetSetting w ''llm_api_url'', APIKey = GetSetting w ''llm_api_key'',
                 Model = (if GetSetting w ''llm_model'' = '''' then ''gpt-3.5-turbo''
                          else GetSetting w ''llm_model'')\<rparr>,
      w\<lparr>setting_reads := setting_reads w @ [''llm_api_url'', ''llm_api_key'', ''llm_model'']\<rparr>)"
  by (simp add: GetConfig_def Let_def)

lemma OrganizeNodes_after_config:
  assumes "GetConfig w = (Inr config, w1)"
      and "Marshal w1 (JArray (map json_NodeInfo nodes)) = Inr nodesJSON"
  shows "fst (OrganizeNodes w nodes instruction) =
           fst (callAPI w1 config
                  [\<lparr>Role = ''system'', Content = OrganizeNodes_systemPrompt\<rparr>,
                   \<lparr>Role = ''user'', Content = OrganizeNodes_userPrompt nodesJSON instruction\<rparr>])"
    and "requests_sent (snd (OrganizeNodes w nodes instruction)) =
           requests_sent (snd (callAPI w1 config
                  [\<lparr>Role = ''system'', Content = OrganizeNodes_systemPrompt\<rparr>,
                   \<lparr>Role = ''user'', Content = OrganizeNodes_userPrompt nodesJSON instruction\<rparr>]))"
  using assms
  by (simp_all add: OrganizeNodes_def split: prod.split sum.split)

lemma GenerateRules_after_config:
  assumes "GetConfig w = (Inr config, w1)"
      and "Marshal w1 (JArray (map json_NodeInfo nodes)) = Inr nodesJSON"
  shows "fst (GenerateRules w nodes clientType instruction) =
           fst (callAPI w1 config
                  [\<lparr>Role = ''system'',
                    Content = GenerateRules_systemPrompt clientType
                                (GenerateRules_formatDesc clientType)\<rparr>,
                   \<lparr>Role = ''user'', Content = GenerateRules_userPrompt nodesJSON instruction\<rparr>])"
    and "requests_sent (snd (GenerateRules w nodes clientType instruction)) =
           requests_sent (snd (callAPI w1 config
                  [\<lparr>Role = ''system'',
                    Content = GenerateRules_systemPrompt clientType
                                (GenerateRules_formatDesc clientType)\<rparr>,
                   \<lparr>Role = ''user'', Content = GenerateRules_userPrompt nodesJSON instruction\<rparr>]))"
  using assms
  by (simp_all add: GenerateRules_def Let_def split: prod.split sum.split)

text \<open>
  C5.  When the stored endpoint URL or the stored API key is the empty string,
  \<open>OrganizeNodes\<close> and \<open>GenerateRules\<close> fail with the configuration error and leave the
  world as it was but for the three settings read: no request is sent and nothing
  is logged, so \<open>callAPI\<close> is not reached.  When both are set and only the stored model
  is empty, the outcome and the requests sent are those of \<open>callAPI\<close> on the
  configuration with model \<open>gpt-3.5-turbo\<close>, once the nodes are serialised.
\<close>

theorem missing_configuration_fails_before_network:
  "(GetSetting w ''llm_api_url'' = '''' \<or> GetSetting w ''llm_api_key'' = '''' \<longrightarrow>
      OrganizeNodes w nodes instruction =
        (Inl (if GetSetting w ''llm_api_url'' = '''' then URLNotConfigured else KeyNotConfigured),
         w\<lparr>setting_reads := setting_reads w @ [''llm_api_url'', ''llm_api_key'', ''llm_model'']\<rparr>) \<and>
      GenerateRules w nodes clientType instruction =
        (Inl (if GetSetting w ''llm_api_url'' = '''' then URLNotConfigured else KeyNotConfigured),
         w\<lparr>setting_reads := setting_reads w @ [''llm_api_url'', ''llm_api_key'', ''llm_model'']\<rparr>) \<and>
      requests_sent (snd (OrganizeNodes w nodes instruction)) = requests_sent w \<and>
      requests_sent (snd (GenerateRules w nodes clientType instruction)) = requests_sent w) \<and>
   (GetSetting w ''llm_api_url'' \<noteq> '''' \<and> GetSetting w ''llm_api_key'' \<noteq> '''' \<and>
    GetSetting w ''llm_model'' = '''' \<longrightarrow>
      (\<forall>nodesJSON config w1.
         Marshal w (JArray (map json_NodeInfo nodes)) = Inr nodesJSON \<and>
         config = \<lparr>APIUrl = GetSetting w ''llm_api_url'', APIKey = GetSetting w ''llm_api_key'',
                    Model = ''gpt-3.5-turbo''\<rparr> \<and>
         w1 = w\<lparr>setting_reads :=
                   setting_reads w @ [''llm_api_url'', ''llm_api_key'', ''llm_model'']\<rparr> \<longrightarrow>
         fst (OrganizeNodes w nodes instruction) =
           fst (callAPI w1 config
                  [\<lparr>Role = ''system'', Content = OrganizeNodes_systemPrompt\<rparr>,
                   \<lparr>Role = ''user'', Content = OrganizeNodes_userPrompt nodesJSON instruction\<rparr>]) \<and>
         requests_sent (snd (OrganizeNodes w nodes instruction)) =
           requests_sent (snd (callAPI w1 config
                  [\<lparr>Role = ''system'', Content = OrganizeNodes_systemPrompt\<rparr>,
                   \<lparr>Role = ''user'', Content = OrganizeNodes_userPrompt nodesJSON instruction\<rparr>])) \<and>
         fst (GenerateRules w nodes clientType instruction) =
           fst (callAPI w1 config
                  [\<lparr>Role = ''system'',
                    Content = GenerateRules_systemPrompt clientType
                                (GenerateRules_formatDesc clientType)\<rparr>,
                   \<lparr>Role = ''user'', Content = GenerateRules_userPrompt nodesJSON instruction\<rparr>]) \<and>
         requests_sent (snd (GenerateRules w nodes clientType instruction)) =
           requests_sent (snd (callAPI w1 config
                  [\<lparr>Role = ''system'',
                    Content = GenerateRules_systemPrompt clientType
                                (GenerateRules_formatDesc clientType)\<rparr>,
                   \<lparr>Role = ''user'', Content = GenerateRules_userPrompt nodesJSON instruction\<rparr>]))))"
proof (intro conjI impI allI)
  assume h: "GetSetting w ''llm_api_url'' = '''' \<or> GetSetting w ''llm_api_key'' = ''''"
  then show o: "OrganizeNodes w nodes instruction =
        (Inl (if GetSetting w ''llm_api_url'' = '''' then URLNotConfigured else KeyNotConfigured),
         w\<lparr>setting_reads := setting_reads w @ [''llm_api_url'', ''llm_api_key'', ''llm_model'']\<rparr>)"
    by (auto simp add: OrganizeNodes_def GetConfig_unfold)
  from h show g: "GenerateRules w nodes clientType instruction =
        (Inl (if GetSetting w ''llm_api_url'' = '''' then URLNotConfigured else KeyNotConfigured),
         w\<lparr>setting_reads := setting_reads w @ [''llm_api_url'', ''llm_api_key'', ''llm_model'']\<rparr>)"
    by (auto simp add: GenerateRules_def GetConfig_unfold)
  from o show "requests_sent (snd (OrganizeNodes w nodes instruction)) = requests_sent w"
    by simp
  from g show "requests_sent (snd (GenerateRules w nodes clientType instruction)) = requests_sent w"
    by simp
next
  fix nodesJSON config w1
  assume s: "GetSetting w ''llm_api_url'' \<noteq> '''' \<and> GetSetting w ''llm_api_key'' \<noteq> '''' \<and>
             GetSetting w ''llm_model'' = ''''"
     and m: "Marshal w (JArray (map json_NodeInfo nodes)) = Inr nodesJSON \<and>
         config = \<lparr>APIUrl = GetSetting w ''llm_api_url'', APIKey = GetSetting w ''llm_api_key'',
                    Model = ''gpt-3.5-turbo''\<rparr> \<and>
         w1 = w\<lparr>setting_reads :=
                   setting_reads w @ [''llm_api_url'', ''llm_api_key'', ''llm_model'']\<rparr>"
  from s m have c: "GetConfig w = (Inr config, w1)"
    by (simp add: GetConfig_unfold)
  from m have n: "Marshal w1 (JArray (map json_NodeInfo nodes)) = Inr nodesJSON"
    by simp
  show "fst (OrganizeNodes w nodes instruction) =
           fst (callAPI w1 config
                  [\<lparr>Role = ''system'', Content = OrganizeNodes_systemPrompt\<rparr>,
                   \<lparr>Role = ''user'', Content = OrganizeNodes_userPrompt nodesJSON instruction\<rparr>])"
    by (rule OrganizeNodes_after_config(1) [OF c n])
  show "requests_sent (snd (OrganizeNodes w nodes instruction)) =
           requests_sent (snd (callAPI w1 config
                  [\<lparr>Role = ''system'', Content = OrganizeNodes_systemPrompt\<rparr>,
                   \<lparr>Role = ''user'', Content = OrganizeNodes_userPrompt nodesJSON instruction\<rparr>]))"
    by (rule OrganizeNodes_after_config(2) [OF c n])
  show "fst (GenerateRules w nodes clientType instruction) =
           fst (callAPI w1 config
                  [\<lparr>Role = ''system'',
                    Content = GenerateRules_systemPrompt clientType
                                (GenerateRules_formatDesc clientType)\<rparr>,
                   \<lparr>Role = ''user'', Content = GenerateRules_userPrompt nodesJSON instruction\<rparr>])"
    by (rule GenerateRules_after_config(1) [OF c n])
  show "requests_sent (snd (GenerateRules w nodes clientType instruction)) =
           requests_sent (snd (callAPI w1 config
                  [\<lparr>Role = ''system'',
                    Content = GenerateRules_systemPrompt clientType
                                (GenerateRules_formatDesc clientType)\<rparr>,
                   \<lparr>Role = ''user'', Content = GenerateRules_userPrompt nodesJSON instruction\<rparr>]))"
    by (rule GenerateRules_after_config(2) [OF c n])
qed

theorem missing_configuration_fails_before_network_witness:
  "GetSetting ((sample_world 200 body_one_choice)\<lparr>GetSetting := (\<lambda>key. '''')\<rparr>) ''llm_api_url'' = '''' \<and>
   OrganizeNodes ((sample_world 200 body_one_choice)\<lparr>GetSetting := (\<lambda>key. '''')\<rparr>) sample_nodes ''''
     = (Inl URLNotConfigured,
        (sample_world 200 body_one_choice)
          \<lparr>GetSetting := (\<lambda>key. ''''),
           setting_reads := [''llm_api_url'', ''llm_api_key'', ''llm_model'']\<rparr>) \<and>
   requests_sent (snd (GenerateRules ((sample_world 200 body_one_choice)\<lparr>GetSetting := (\<lambda>key. '''')\<rparr>)
                         sample_nodes ''clash'' '''')) = [] \<and>
   GetSetting (sample_world 200 body_one_choice) ''llm_api_url'' \<noteq> '''' \<and>
   GetSetting (sample_world 200 body_one_choice) ''llm_api_key'' \<noteq> '''' \<and>
   GetSetting (sample_world 200 body_one_choice) ''llm_model'' = '''' \<and>
   (\<exists>nodesJSON. Marshal (sample_world 200 body_one_choice) (JArray (map json_NodeInfo sample_nodes))
                   = Inr nodesJSON) \<and>
   fst (OrganizeNodes (sample_world 200 body_one_choice) sample_nodes '''') = Inr ''ok'' \<and>
   fst (GenerateRules (sample_world 200 body_one_choice) sample_nodes ''clash'' '''') = Inr ''ok''"
proof -
  let ?w = "sample_world 200 body_one_choice"
  let ?e = "?w\<lparr>GetSetting := (\<lambda>key. '''')\<rparr>"
  let ?w1 = "?w\<lparr>setting_reads :=
                    setting_reads ?w @ [''llm_api_url'', ''llm_api_key'', ''llm_model'']\<rparr>"
  let ?config = "\<lparr>APIUrl = GetSetting ?w ''llm_api_url'', APIKey = GetSetting ?w ''llm_api_key'',
                   Model = ''gpt-3.5-turbo''\<rparr>"
  let ?json = "sample_encode (JArray (map json_NodeInfo sample_nodes))"
  have e1: "GetSetting ?e ''llm_api_url'' = ''''"
    by simp
  note empty = missing_configuration_fails_before_network
                 [of ?e sample_nodes "''''" "''clash''", THEN conjunct1, rule_format]
  have e2: "OrganizeNodes ?e sample_nodes ''''
     = (Inl URLNotConfigured,
        ?w\<lparr>GetSetting := (\<lambda>key. ''''),
            setting_reads := [''llm_api_url'', ''llm_api_key'', ''llm_model'']\<rparr>)"
    using empty e1 by (simp add: sample_world_def)
  have e3: "requests_sent (snd (GenerateRules ?e sample_nodes ''clash'' '''')) = []"
    using empty e1 by (simp add: sample_world_def)
  have s: "GetSetting ?w ''llm_api_url'' \<noteq> ''''" "GetSetting ?w ''llm_api_key'' \<noteq> ''''"
          "GetSetting ?w ''llm_model'' = ''''"
    by (simp_all add: sample_world_def sample_settings_def)
  have m: "Marshal ?w (JArray (map json_NodeInfo sample_nodes)) = Inr ?json"
    by (simp add: sample_world_def del: sample_encode.simps)
  note model = missing_configuration_fails_before_network
                 [of ?w sample_nodes "''''" "''clash''", THEN conjunct2, rule_format,
                  of ?json ?config ?w1]
  have c: "?config = sample_config"
    by (simp add: sample_world_def sample_settings_def sample_config_def)
  have call: "fst (callAPI ?w1 sample_config ms) = Inr ''ok''" for ms
    by (simp add: fst_callAPI_setting_reads callAPI_sample sample_Unmarshal_def
          chat_one_choice_def)
  have o: "fst (OrganizeNodes ?w sample_nodes '''') = Inr ''ok''"
    using model s m call unfolding c by simp
  have g: "fst (GenerateRules ?w sample_nodes ''clash'' '''') = Inr ''ok''"
    using model s m call unfolding c by simp
  from e1 e2 e3 s m o g show ?thesis
    by blast
qed

lemma toNodeInfo_projection:
  assumes "list_all2 (\<lambda>a b. in_ID a = in_ID b \<and> in_Name a = in_Name b \<and>
                            in_Country a = in_Country b \<and> in_Group a = in_Group b \<and>
                            GetProtocolFromLink w (in_Link a) = GetProtocolFromLink w (in_Link b))
             ns1 ns2"
  shows "map (toNodeInfo w) ns1 = map (toNodeInfo w) ns2"
  using assms
  by (induction rule: list_all2_induct) (simp_all add: toNodeInfo_def)

text \<open>
  C6.  Two requests whose node lists agree, position by position, on id, name, country,
  group and on the protocol tag derived from the link (the links themselves may differ)
  lead to the same list of node summaries, the only form in which the nodes enter the
  prompts; and the handlers \<open>LLMOrganizeNodes\<close> and \<open>LLMGenerateRules\<close> then produce the
  same response and the same world, in particular the same requests sent upstream.  So
  nothing of a link beyond its protocol tag reaches the messages.
\<close>

theorem messages_depend_on_node_projection_only:
  assumes "list_all2 (\<lambda>a b. in_ID a = in_ID b \<and> in_Name a = in_Name b \<and>
                            in_Country a = in_Country b \<and> in_Group a = in_Group b \<and>
                            GetProtocolFromLink w (in_Link a) = GetProtocolFromLink w (in_Link b))
             ns1 ns2"
  shows "map (toNodeInfo w) ns1 = map (toNodeInfo w) ns2 \<and>
         LLMOrganizeNodes w (Some \<lparr>Nodes = ns1, Instruction = instruction\<rparr>) =
         LLMOrganizeNodes w (Some \<lparr>Nodes = ns2, Instruction = instruction\<rparr>) \<and>
         LLMGenerateRules w (Some \<lparr>gen_Nodes = ns1, ClientType = clientType,
                                    gen_Instruction = instruction\<rparr>) =
         LLMGenerateRules w (Some \<lparr>gen_Nodes = ns2, ClientType = clientType,
                                    gen_Instruction = instruction\<rparr>)"
proof -
  have m: "map (toNodeInfo w) ns1 = map (toNodeInfo w) ns2"
    by (rule toNodeInfo_projection [OF assms])
  have l: "length ns1 = length ns2"
    using assms by (rule list_all2_lengthD)
  have o: "LLMOrganizeNodes w (Some \<lparr>Nodes = ns1, Instruction = instruction\<rparr>) =
           LLMOrganizeNodes w (Some \<lparr>Nodes = ns2, Instruction = instruction\<rparr>)"
    using m l by (simp add: LLMOrganizeNodes_def Let_def)
  have g: "LLMGenerateRules w (Some \<lparr>gen_Nodes = ns1, ClientType = clientType,
                                      gen_Instruction = instruction\<rparr>) =
           LLMGenerateRules w (Some \<lparr>gen_Nodes = ns2, ClientType = clientType,
                                      gen_Instruction = instruction\<rparr>)"
    using m l by (simp add: LLMGenerateRules_def Let_def)
  from m o g show ?thesis
    by simp
qed

theorem messages_depend_on_node_projection_only_witness:
  "list_all2 (\<lambda>a b. in_ID a = in_ID b \<and> in_Name a = in_Name b \<and>
                     in_Country a = in_Country b \<and> in_Group a = in_Group b \<and>
                     GetProtocolFromLink (sample_world 200 body_one_choice) (in_Link a) =
                     GetProtocolFromLink (sample_world 200 body_one_choice) (in_Link b))
     (sample_in_nodes ''uuid-1@a.example:443'' ''pw-1@b.example:443'')
     (sample_in_nodes ''uuid-2@c.example:8443'' ''pw-2@d.example:443'') \<and>
   sample_in_nodes ''uuid-1@a.example:443'' ''pw-1@b.example:443''
     \<noteq> sample_in_nodes ''uuid-2@c.example:8443'' ''pw-2@d.example:443'' \<and>
   map (toNodeInfo (sample_world 200 body_one_choice))
     (sample_in_nodes ''uuid-1@a.example:443'' ''pw-1@b.example:443'') = sample_nodes \<and>
   map (toNodeInfo (sample_world 200 body_one_choice))
     (sample_in_nodes ''uuid-2@c.example:8443'' ''pw-2@d.example:443'') = sample_nodes \<and>
   LLMOrganizeNodes (sample_world 200 body_one_choice)
     (Some \<lparr>Nodes = sample_in_nodes ''uuid-1@a.example:443'' ''pw-1@b.example:443'',
            Instruction = ''group by region''\<rparr>) =
   LLMOrganizeNodes (sample_world 200 body_one_choice)
     (Some \<lparr>Nodes = sample_in_nodes ''uuid-2@c.example:8443'' ''pw-2@d.example:443'',
            Instruction = ''group by region''\<rparr>) \<and>
   LLMGenerateRules (sample_world 200 body_one_choice)
     (Some \<lparr>gen_Nodes = sample_in_nodes ''uuid-1@a.example:443'' ''pw-1@b.example:443'',
            ClientType = ''surge'', gen_Instruction = ''''\<rparr>) =
   LLMGenerateRules (sample_world 200 body_one_choice)
     (Some \<lparr>gen_Nodes = sample_in_nodes ''uuid-2@c.example:8443'' ''pw-2@d.example:443'',
            ClientType = ''surge'', gen_Instruction = ''''\<rparr>)"
proof -
  let ?w = "sample_world 200 body_one_choice"
  let ?ns1 = "sample_in_nodes ''uuid-1@a.example:443'' ''pw-1@b.example:443''"
  let ?ns2 = "sample_in_nodes ''uuid-2@c.example:8443'' ''pw-2@d.example:443''"
  have h: "list_all2 (\<lambda>a b. in_ID a = in_ID b \<and> in_Name a = in_Name b \<and>
                     in_Country a = in_Country b \<and> in_Group a = in_Group b \<and>
                     GetProtocolFromLink ?w (in_Link a) = GetProtocolFromLink ?w (in_Link b))
             ?ns1 ?ns2"
    by (simp add: sample_in_nodes_def sample_world_def)
  have d: "?ns1 \<noteq> ?ns2"
    by (simp add: sample_in_nodes_def)
  have n1: "map (toNodeInfo ?w) ?ns1 = sample_nodes"
    by (simp add: sample_in_nodes_def sample_nodes_def toNodeInfo_def sample_world_def)
  note t = messages_depend_on_node_projection_only [OF h]
  from t [of "''''" "''''"] n1 have n2: "map (toNodeInfo ?w) ?ns2 = sample_nodes"
    by simp
  from h d n1 n2 t [of "''group by region''" "''surge''"] t [of "''''" "''surge''"]
  show ?thesis
    by blast
qed

lemma callAPI_never_EmptyResult:
  "fst (callAPI w config messages) \<noteq> Inl EmptyResult"
  by (cases "Marshal w (JObject [(''model'', JString (Model config)),
                               (''messages'', JArray (map json_ChatMessage messages)),
                               (''temperature'', JNumber (7 / 10))])";
      cases "URL_error w (buildEndpointURL (APIUrl config))")
     (simp_all add: callAPI_unfold Let_def split: sum.split list.split)

lemma Error_EmptyResult_distinct:
  "e \<noteq> EmptyResult \<Longrightarrow> Error e \<noteq> Error EmptyResult"
  by (cases e) simp_all

text \<open>
  C8.  \<open>TestConnection\<close> makes the one call of \<open>callAPI\<close> with a single fixed message, of
  role \<open>user\<close> and without a line break.  It succeeds if and only if that call returns a
  text and the text is not empty.  An empty text gives the empty-result error, which
  differs, as a value and as a message, from every error that \<open>callAPI\<close> returns; an error
  of \<open>callAPI\<close> is passed on as it is.  The world after \<open>TestConnection\<close> is the world
  after that call.
\<close>

theorem TestConnection_succeeds_iff:
  "(fst (TestConnection w config) = None \<longleftrightarrow>
      (\<exists>result. fst (callAPI w config [TestConnection_message]) = Inr result \<and> result \<noteq> '''')) \<and>
   (fst (callAPI w config [TestConnection_message]) = Inr '''' \<longrightarrow>
      fst (TestConnection w config) = Some EmptyResult) \<and>
   (\<forall>err. fst (callAPI w config [TestConnection_message]) = Inl err \<longrightarrow>
      fst (TestConnection w config) = Some err \<and> err \<noteq> EmptyResult \<and>
      Error err \<noteq> Error EmptyResult) \<and>
   snd (TestConnection w config) = snd (callAPI w config [TestConnection_message]) \<and>
   Role TestConnection_message = ''user'' \<and>
   CHR 0x0A \<notin> set (Content TestConnection_message)"
proof -
  obtain r w' where c: "callAPI w config [TestConnection_message] = (r, w')"
    by (cases "callAPI w config [TestConnection_message]")
  have n: "r \<noteq> Inl EmptyResult"
    using callAPI_never_EmptyResult [of w config "[TestConnection_message]"] c by simp
  have m: "Role TestConnection_message = ''user''"
          "CHR 0x0A \<notin> set (Content TestConnection_message)"
    by (simp_all add: TestConnection_message_def)
  show ?thesis
  proof (cases r)
    case (Inl err)
    with n have "err \<noteq> EmptyResult" by auto
    with Inl c m Error_EmptyResult_distinct [of err] show ?thesis
      by (simp add: TestConnection_def)
  next
    case (Inr result)
    with c m show ?thesis
      by (simp add: TestConnection_def)
  qed
qed

theorem TestConnection_succeeds_iff_witness:
  "fst (callAPI (sample_world 200 body_one_choice) sample_config [TestConnection_message])
     = Inr ''ok'' \<and>
   fst (TestConnection (sample_world 200 body_one_choice) sample_config) = None \<and>
   fst (callAPI (sample_world 200 body_empty_content) sample_config [TestConnection_message])
     = Inr '''' \<and>
   fst (TestConnection (sample_world 200 body_empty_content) sample_config) = Some EmptyResult \<and>
   fst (callAPI (sample_world 200 body_no_choice) sample_config [TestConnection_message])
     = Inl NoValidResult \<and>
   fst (TestConnection (sample_world 200 body_no_choice) sample_config) = Some NoValidResult \<and>
   Error NoValidResult \<noteq> Error EmptyResult"
proof -
  have c1: "fst (callAPI (sample_world 200 body_one_choice) sample_config [TestConnection_message])
              = Inr ''ok''"
    by (simp add: callAPI_sample sample_Unmarshal_def chat_one_choice_def)
  have c2: "fst (callAPI (sample_world 200 body_empty_content) sample_config
                   [TestConnection_message]) = Inr ''''"
    by (simp add: callAPI_sample sample_Unmarshal_def chat_empty_content_def
          body_one_choice_def body_no_choice_def body_empty_content_def)
  have c3: "fst (callAPI (sample_world 200 body_no_choice) sample_config [TestConnection_message])
              = Inl NoValidResult"
    by (simp add: callAPI_sample sample_Unmarshal_def chat_no_choice_def
          body_one_choice_def body_no_choice_def)
  have t1: "fst (TestConnection (sample_world 200 body_one_choice) sample_config) = None"
    using TestConnection_succeeds_iff [of "sample_world 200 body_one_choice" sample_config,
            THEN conjunct1] c1
    by simp
  have t2: "fst (TestConnection (sample_world 200 body_empty_content) sample_config)
              = Some EmptyResult"
    using TestConnection_succeeds_iff [of "sample_world 200 body_empty_content" sample_config,
            THEN conjunct2, THEN conjunct1] c2
    by blast
  have t3: "fst (TestConnection (sample_world 200 body_no_choice) sample_config)
              = Some NoValidResult \<and> NoValidResult \<noteq> EmptyResult \<and>
            Error NoValidResult \<noteq> Error EmptyResult"
    using TestConnection_succeeds_iff [of "sample_world 200 body_no_choice" sample_config,
            THEN conjunct2, THEN conjunct2, THEN conjunct1, rule_format, of NoValidResult] c3
    by blast
  from c1 c2 c3 t1 t2 t3 show ?thesis
    by blast
qed

text \<open>
  C9.  \<open>GenerateRules\<close> chooses the format description from the client-format tag: the
  text for \<open>clash\<close>, the text for \<open>surge\<close>, and one default text for every other tag; the
  three texts differ from one another.  The description chosen is the one that the
  system message of the call carries.
\<close>

theorem GenerateRules_format_by_client_type:
  "GenerateRules_formatDesc ''clash'' = formatDesc_clash \<and>
   GenerateRules_formatDesc ''surge'' = formatDesc_surge \<and>
   (clientType \<noteq> ''clash'' \<and> clientType \<noteq> ''surge'' \<longrightarrow>
      GenerateRules_formatDesc clientType = formatDesc_default) \<and>
   formatDesc_clash \<noteq> formatDesc_surge \<and>
   formatDesc_clash \<noteq> formatDesc_default \<and>
   formatDesc_surge \<noteq> formatDesc_default \<and>
   (\<forall>config w1 nodesJSON.
      GetConfig w = (Inr config, w1) \<and>
      Marshal w1 (JArray (map json_NodeInfo nodes)) = Inr nodesJSON \<longrightarrow>
      fst (GenerateRules w nodes clientType instruction) =
        fst (callAPI w1 config
               [\<lparr>Role = ''system'',
                 Content = GenerateRules_systemPrompt clientType
                             (if clientType = ''clash'' then formatDesc_clash
                              else if clientType = ''surge'' then formatDesc_surge
                              else formatDesc_default)\<rparr>,
                \<lparr>Role = ''user'', Content = GenerateRules_userPrompt nodesJSON instruction\<rparr>]))"
proof (intro conjI allI impI)
  show "GenerateRules_formatDesc ''clash'' = formatDesc_clash"
    by (simp add: GenerateRules_formatDesc_def)
  show "GenerateRules_formatDesc ''surge'' = formatDesc_surge"
    by (simp add: GenerateRules_formatDesc_def)
  show "GenerateRules_formatDesc clientType = formatDesc_default"
    if "clientType \<noteq> ''clash'' \<and> clientType \<noteq> ''surge''"
    using that by (simp add: GenerateRules_formatDesc_def)
  show "formatDesc_clash \<noteq> formatDesc_surge"
    by (simp add: formatDesc_clash_def formatDesc_surge_def)
  show "formatDesc_clash \<noteq> formatDesc_default"
    by (simp add: formatDesc_clash_def formatDesc_default_def)
  show "formatDesc_surge \<noteq> formatDesc_default"
    by (simp add: formatDesc_surge_def formatDesc_default_def)
  show "fst (GenerateRules w nodes clientType instruction) =
        fst (callAPI w1 config
               [\<lparr>Role = ''system'',
                 Content = GenerateRules_systemPrompt clientType
                             (if clientType = ''clash'' then formatDesc_clash
                              else if clientType = ''surge'' then formatDesc_surge
                              else formatDesc_default)\<rparr>,
                \<lparr>Role = ''user'', Content = GenerateRules_userPrompt nodesJSON instruction\<rparr>])"
    if "GetConfig w = (Inr config, w1) \<and>
        Marshal w1 (JArray (map json_NodeInfo nodes)) = Inr nodesJSON"
    for config w1 nodesJSON
    using GenerateRules_after_config(1) [of w config w1 nodes nodesJSON clientType instruction]
          that
    by (simp add: GenerateRules_formatDesc_def)
qed

theorem GenerateRules_format_by_client_type_witness:
  "''Clash'' \<noteq> ''clash'' \<and> ''Clash'' \<noteq> ''surge'' \<and>
   GenerateRules_formatDesc ''Clash'' = formatDesc_default \<and>
   ''sing-box'' \<noteq> ''clash'' \<and> ''sing-box'' \<noteq> ''surge'' \<and>
   GenerateRules_formatDesc ''sing-box'' = formatDesc_default \<and>
   (\<exists>config w1 nodesJSON.
      GetConfig (sample_world 200 body_one_choice) = (Inr config, w1) \<and>
      Marshal w1 (JArray (map json_NodeInfo sample_nodes)) = Inr nodesJSON \<and>
      fst (GenerateRules (sample_world 200 body_one_choice) sample_nodes ''surge'' '''') =
        fst (callAPI w1 config
               [\<lparr>Role = ''system'',
                 Content = GenerateRules_systemPrompt ''surge'' formatDesc_surge\<rparr>,
                \<lparr>Role = ''user'', Content = GenerateRules_userPrompt nodesJSON ''''\<rparr>]))"
proof -
  let ?w = "sample_world 200 body_one_choice"
  let ?w1 = "?w\<lparr>setting_reads :=
                    setting_reads ?w @ [''llm_api_url'', ''llm_api_key'', ''llm_model'']\<rparr>"
  let ?json = "sample_encode (JArray (map json_NodeInfo sample_nodes))"
  have a: "''Clash'' \<noteq> ''clash'' \<and> ''Clash'' \<noteq> ''surge''"
    by simp
  have b: "''sing-box'' \<noteq> ''clash'' \<and> ''sing-box'' \<noteq> ''surge''"
    by simp
  note d = GenerateRules_format_by_client_type
             [THEN conjunct2, THEN conjunct2, THEN conjunct1, rule_format]
  have r1: "GenerateRules_formatDesc ''Clash'' = formatDesc_default"
    using d [of "''Clash''"] a by blast
  have r2: "GenerateRules_formatDesc ''sing-box'' = formatDesc_default"
    using d [of "''sing-box''"] b by blast
  have c: "GetConfig ?w = (Inr sample_config, ?w1)"
    by (simp add: GetConfig_unfold sample_world_def sample_settings_def sample_config_def)
  have m: "Marshal ?w1 (JArray (map json_NodeInfo sample_nodes)) = Inr ?json"
    by (simp add: sample_world_def del: sample_encode.simps)
  have "fst (GenerateRules ?w sample_nodes ''surge'' '''') =
        fst (callAPI ?w1 sample_config
               [\<lparr>Role = ''system'',
                 Content = GenerateRules_systemPrompt ''surge''
                             (if ''surge'' = ''clash'' then formatDesc_clash
                              else if ''surge'' = ''surge'' then formatDesc_surge
                              else formatDesc_default)\<rparr>,
                \<lparr>Role = ''user'', Content = GenerateRules_userPrompt ?json ''''\<rparr>])"
    using GenerateRules_format_by_client_type
            [of "''surge''" ?w sample_nodes "''''",
             THEN conjunct2, THEN conjunct2, THEN conjunct2, THEN conjunct2,
             THEN conjunct2, THEN conjunct2, rule_format, of sample_config ?w1 ?json]
          c m
    by blast
  then have r3: "fst (GenerateRules ?w sample_nodes ''surge'' '''') =
        fst (callAPI ?w1 sample_config
               [\<lparr>Role = ''system'',
                 Content = GenerateRules_systemPrompt ''surge'' formatDesc_surge\<rparr>,
                \<lparr>Role = ''user'', Content = GenerateRules_userPrompt ?json ''''\<rparr>])"
    by simp
  from a b r1 r2 c m r3 show ?thesis
    by blast
qed

text \<open>
  C10.  A request bound with an empty node list makes \<open>LLMOrganizeNodes\<close> and
  \<open>LLMGenerateRules\<close> answer with a failure and leave the world untouched: no setting is
  read and no request is sent, so the LLM service is not invoked.  With a non-empty node
  list and an empty client type, \<open>LLMGenerateRules\<close> calls \<open>GenerateRules\<close> with the client
  type \<open>clash\<close>, and behaves as on the same request with client type \<open>clash\<close>.
\<close>

theorem handlers_reject_empty_node_list:
  "(Nodes req = [] \<longrightarrow> (\<exists>msg. LLMOrganizeNodes w (Some req) = (FailWithMsg msg, w))) \<and>
   (gen_Nodes greq = [] \<longrightarrow> (\<exists>msg. LLMGenerateRules w (Some greq) = (FailWithMsg msg, w))) \<and>
   (gen_Nodes greq \<noteq> [] \<and> ClientType greq = '''' \<longrightarrow>
      (\<exists>failPrefix okMsg.
         LLMGenerateRules w (Some greq) =
           (case GenerateRules w (map (toNodeInfo w) (gen_Nodes greq)) ''clash''
                   (gen_Instruction greq) of
              (Inl err, w') \<Rightarrow> (FailWithMsg (failPrefix @ Error err), w')
            | (Inr result, w') \<Rightarrow> (OkDetailed okMsg [(''result'', result)], w'))) \<and>
      LLMGenerateRules w (Some greq) = LLMGenerateRules w (Some (greq\<lparr>ClientType := ''clash''\<rparr>)))"
proof (intro conjI impI)
  assume "Nodes req = []"
  then show "\<exists>msg. LLMOrganizeNodes w (Some req) = (FailWithMsg msg, w)"
    by (simp add: LLMOrganizeNodes_def)
next
  assume "gen_Nodes greq = []"
  then show "\<exists>msg. LLMGenerateRules w (Some greq) = (FailWithMsg msg, w)"
    by (simp add: LLMGenerateRules_def)
next
  assume h: "gen_Nodes greq \<noteq> [] \<and> ClientType greq = ''''"
  then have "LLMGenerateRules w (Some greq) =
           (case GenerateRules w (map (toNodeInfo w) (gen_Nodes greq)) ''clash''
                   (gen_Instruction greq) of
              (Inl err, w') \<Rightarrow>
                (FailWithMsg (([CHR 0xE8, CHR 0xA7, CHR 0x84, CHR 0xE5, CHR 0x88, CHR 0x99, CHR 0xE7, CHR 0x94, CHR 0x9F]
                   @ [CHR 0xE6, CHR 0x88, CHR 0x90, CHR 0xE5, CHR 0xA4, CHR 0xB1, CHR 0xE8, CHR 0xB4, CHR 0xA5]
                   @ '': '')
                              @ Error err), w')
            | (Inr result, w') \<Rightarrow>
                (OkDetailed ([CHR 0xE7, CHR 0x94, CHR 0x9F, CHR 0xE6, CHR 0x88, CHR 0x90, CHR 0xE5, CHR 0xAE, CHR 0x8C]
                   @ [CHR 0xE6, CHR 0x88, CHR 0x90])
                            [(''result'', result)], w'))"
    by (simp add: LLMGenerateRules_def Let_def)
  then show "\<exists>failPrefix okMsg.
         LLMGenerateRules w (Some greq) =
           (case GenerateRules w (map (toNodeInfo w) (gen_Nodes greq)) ''clash''
                   (gen_Instruction greq) of
              (Inl err, w') \<Rightarrow> (FailWithMsg (failPrefix @ Error err), w')
            | (Inr result, w') \<Rightarrow> (OkDetailed okMsg [(''result'', result)], w'))"
    by blast
  from h show "LLMGenerateRules w (Some greq)
                 = LLMGenerateRules w (Some (greq\<lparr>ClientType := ''clash''\<rparr>))"
    by (simp add: LLMGenerateRules_def Let_def)
qed

theorem handlers_reject_empty_node_list_witness:
  "Nodes \<lparr>Nodes = [], Instruction = ''group by region''\<rparr> = [] \<and>
   (\<exists>msg. LLMOrganizeNodes (sample_world 200 body_one_choice)
             (Some \<lparr>Nodes = [], Instruction = ''group by region''\<rparr>)
           = (FailWithMsg msg, sample_world 200 body_one_choice)) \<and>
   gen_Nodes \<lparr>gen_Nodes = [], ClientType = ''surge'', gen_Instruction = ''''\<rparr> = [] \<and>
   (\<exists>msg. LLMGenerateRules (sample_world 200 body_one_choice)
             (Some \<lparr>gen_Nodes = [], ClientType = ''surge'', gen_Instruction = ''''\<rparr>)
           = (FailWithMsg msg, sample_world 200 body_one_choice)) \<and>
   sample_in_nodes ''s1'' ''s2'' \<noteq> [] \<and>
   LLMGenerateRules (sample_world 200 body_one_choice)
     (Some \<lparr>gen_Nodes = sample_in_nodes ''s1'' ''s2'', ClientType = '''', gen_Instruction = ''''\<rparr>) =
   LLMGenerateRules (sample_world 200 body_one_choice)
     (Some \<lparr>gen_Nodes = sample_in_nodes ''s1'' ''s2'', ClientType = ''clash'',
            gen_Instruction = ''''\<rparr>)"
proof -
  let ?w = "sample_world 200 body_one_choice"
  let ?req = "\<lparr>Nodes = [], Instruction = ''group by region''\<rparr>"
  let ?greq = "\<lparr>gen_Nodes = [], ClientType = ''surge'', gen_Instruction = ''''\<rparr>"
  let ?full = "\<lparr>gen_Nodes = sample_in_nodes ''s1'' ''s2'', ClientType = '''',
                 gen_Instruction = ''''\<rparr>"
  have a: "Nodes ?req = []" by simp
  have b: "gen_Nodes ?greq = []" by simp
  have c: "gen_Nodes ?full \<noteq> [] \<and> ClientType ?full = ''''"
    by (simp add: sample_in_nodes_def)
  have r1: "\<exists>msg. LLMOrganizeNodes ?w (Some ?req) = (FailWithMsg msg, ?w)"
    using handlers_reject_empty_node_list [of ?req ?w ?greq, THEN conjunct1] a by blast
  have r2: "\<exists>msg. LLMGenerateRules ?w (Some ?greq) = (FailWithMsg msg, ?w)"
    using handlers_reject_empty_node_list [of ?req ?w ?greq, THEN conjunct2, THEN conjunct1] b
    by blast
  have r3: "LLMGenerateRules ?w (Some ?full)
              = LLMGenerateRules ?w (Some (?full\<lparr>ClientType := ''clash''\<rparr>))"
    using handlers_reject_empty_node_list [of ?req ?w ?full, THEN conjunct2, THEN conjunct2] c
    by blast
  have d: "sample_in_nodes ''s1'' ''s2'' \<noteq> []"
    by (simp add: sample_in_nodes_def)
  from a b d r1 r2 r3 show ?thesis
    by simp
qed

end
